theory Spec2Isabelle
  imports Main "HOL-Library.Word" "HOL-Library.Sublist"
begin

section \<open>Text and regular-expression primitives\<close>

text \<open>
  The texts of the output guard, of the issues and of the URL are modelled by
  \<^typ>\<open>string\<close>: one \<^typ>\<open>char\<close> per code point, for the code points 0 to 255.  The
  character classes below are the ones of Python's \<open>re\<close> module for \<open>str\<close> patterns on
  that range.  The markup that is fingerprinted comes from the browser and may hold any
  code point: it is modelled further below as the list of its code points.
\<close>

definition is_space :: "char \<Rightarrow> bool" where
  \<comment> \<open>\<open>\s\<close> and \<open>str.isspace\<close>: TAB to CR, FS to US, SPACE, NEL, NBSP\<close>
  "is_space c = (let n = (of_char c :: nat) in
     (9 \<le> n \<and> n \<le> 13) \<or> (28 \<le> n \<and> n \<le> 32) \<or> n = 133 \<or> n = 160)"

definition is_ascii_alnum :: "char \<Rightarrow> bool" where
  \<comment> \<open>\<open>[a-zA-Z0-9]\<close>\<close>
  "is_ascii_alnum c = (let n = (of_char c :: nat) in
     (48 \<le> n \<and> n \<le> 57) \<or> (65 \<le> n \<and> n \<le> 90) \<or> (97 \<le> n \<and> n \<le> 122))"

definition is_word :: "char \<Rightarrow> bool" where
  \<comment> \<open>\<open>\w\<close>: alphanumeric code points and the underscore\<close>
  "is_word c = (let n = (of_char c :: nat) in
     is_ascii_alnum c \<or> n = 95 \<or> n = 170 \<or> n = 178 \<or> n = 179 \<or> n = 181 \<or> n = 185 \<or> n = 186
     \<or> (188 \<le> n \<and> n \<le> 190) \<or> (192 \<le> n \<and> n \<le> 214) \<or> (216 \<le> n \<and> n \<le> 246)
     \<or> (248 \<le> n \<and> n \<le> 255))"

definition lower_ascii :: "char \<Rightarrow> char" where
  \<comment> \<open>case folding of \<open>re.IGNORECASE\<close> against an ASCII pattern letter\<close>
  "lower_ascii c = (let n = (of_char c :: nat) in
     if 65 \<le> n \<and> n \<le> 90 then char_of (n + 32) else c)"

text \<open>
  \<open>drop_prefix ci lit s\<close> matches the literal \<open>lit\<close> (written in lower case) at the start of
  \<open>s\<close>, ignoring case when \<open>ci\<close> holds, and returns the rest of \<open>s\<close>.
\<close>

fun drop_prefix :: "bool \<Rightarrow> string \<Rightarrow> string \<Rightarrow> string option" where
  "drop_prefix ci [] s = Some s"
| "drop_prefix ci (p # ps) [] = None"
| "drop_prefix ci (p # ps) (c # cs) =
     (if (if ci then lower_ascii c else c) = p then drop_prefix ci ps cs else None)"

text \<open>\<open>.*?lit\<close> under \<open>re.DOTALL\<close>: the rest after the first occurrence of \<open>lit\<close>.\<close>

fun after_first :: "bool \<Rightarrow> string \<Rightarrow> string \<Rightarrow> string option" where
  "after_first ci lit [] = drop_prefix ci lit []"
| "after_first ci lit (c # cs) =
     (case drop_prefix ci lit (c # cs) of
        Some r \<Rightarrow> Some r
      | None \<Rightarrow> after_first ci lit cs)"

text \<open>\<open>[^q]*q\<close>: the rest after the first occurrence of the character \<open>q\<close>.\<close>

fun after_char :: "'a \<Rightarrow> 'a list \<Rightarrow> 'a list option" where
  "after_char q [] = None"
| "after_char q (c # cs) = (if c = q then Some cs else after_char q cs)"

text \<open>
  \<open>re.sub(pattern, '', s)\<close> for a pattern that matches no empty string: scan from the left,
  drop each match and go on behind it, copy every other character.  The matcher \<open>m\<close> gives
  the rest of the text behind a match that starts at the current position.
\<close>

function sub_all :: "('a list \<Rightarrow> 'a list option) \<Rightarrow> 'a list \<Rightarrow> 'a list" where
  "sub_all m [] = []"
| "sub_all m (c # cs) =
     (case m (c # cs) of
        Some r \<Rightarrow> if length r \<le> length cs then sub_all m r else c # sub_all m cs
      | None \<Rightarrow> c # sub_all m cs)"
  by pat_completeness auto
termination
  by (relation "measure (\<lambda>(m, s). length s)") auto

text \<open>The exceptions that can leave a function of the program.\<close>

datatype py_error = TypeError | KeyError | AttributeError | UnicodeEncodeError

section \<open>Output guard (guardrails/output\_guard.py)\<close>

definition match_script_guard :: "string \<Rightarrow> string option" where
  \<comment> \<open>\<open><script\b[^>]*>.*?</script>\<close>, IGNORECASE and DOTALL\<close>
  "match_script_guard s =
     (case drop_prefix True ''<script'' s of
        None \<Rightarrow> None
      | Some r \<Rightarrow>
          (case r of
             [] \<Rightarrow> None
           | c # _ \<Rightarrow>
               if is_word c then None
               else (case after_char CHR ''>'' r of
                       None \<Rightarrow> None
                     | Some b \<Rightarrow> after_first True ''</script>'' b)))"

definition match_javascript :: "string \<Rightarrow> string option" where
  \<comment> \<open>\<open>javascript:\<close>, IGNORECASE\<close>
  "match_javascript s = drop_prefix True ''javascript:'' s"

definition match_handler :: "char \<Rightarrow> string \<Rightarrow> string option" where
  \<comment> \<open>\<open>\son\w+="[^"]*"\<close> and its single-quoted twin, IGNORECASE; \<open>q\<close> is the quote\<close>
  "match_handler q s =
     (case s of
        [] \<Rightarrow> None
      | c # cs \<Rightarrow>
          if \<not> is_space c then None
          else (case drop_prefix True ''on'' cs of
                  None \<Rightarrow> None
                | Some r \<Rightarrow>
                    if takeWhile is_word r = [] then None
                    else (case drop_prefix False [CHR ''='', q] (dropWhile is_word r) of
                            None \<Rightarrow> None
                          | Some v \<Rightarrow> after_char q v)))"

definition guard_marker :: string where
  "guard_marker = CHR 0x0A # ''<!-- EmpathAI Guard: Unsafe content removed -->''"

definition validate_fix :: "string \<Rightarrow> string" where
  "validate_fix fix_code =
     (if fix_code = [] then []
      else
        let s1 = sub_all match_script_guard fix_code;
            s2 = sub_all match_javascript s1;
            s3 = sub_all (match_handler CHR 0x22) s2;
            s4 = sub_all (match_handler CHR 0x27) s3
        in if s4 \<noteq> fix_code then s4 @ guard_marker else s4)"

text \<open>\<open>occurs m s\<close>: the pattern of matcher \<open>m\<close> matches somewhere in \<open>s\<close>.\<close>

fun occurs :: "('a list \<Rightarrow> 'a list option) \<Rightarrow> 'a list \<Rightarrow> bool" where
  "occurs m [] = (case m [] of Some _ \<Rightarrow> True | None \<Rightarrow> False)"
| "occurs m (c # cs) = (case m (c # cs) of Some _ \<Rightarrow> True | None \<Rightarrow> occurs m cs)"

section \<open>Fingerprint engine (cache/dom\_cache.py, cache/redis\_cache.py)\<close>

text \<open>
  The markup is a Python \<open>str\<close>: a list of code points, which may be lone surrogates
  (55296 to 57343), as a page can hold them and the browser hands them on.  \<open>cps\<close> turns
  a literal into its code points.
\<close>

definition cps :: "string \<Rightarrow> nat list" where
  "cps s = map of_char s"

definition cp_space :: "nat \<Rightarrow> bool" where
  \<comment> \<open>\<open>\s\<close> and \<open>str.isspace\<close> on all code points\<close>
  "cp_space n = ((9 \<le> n \<and> n \<le> 13) \<or> (28 \<le> n \<and> n \<le> 32) \<or> n = 133 \<or> n = 160
     \<or> n = 5760 \<or> (8192 \<le> n \<and> n \<le> 8202) \<or> n = 8232 \<or> n = 8233 \<or> n = 8239
     \<or> n = 8287 \<or> n = 12288)"

definition cp_alnum :: "nat \<Rightarrow> bool" where
  \<comment> \<open>\<open>[a-zA-Z0-9]\<close>\<close>
  "cp_alnum n = ((48 \<le> n \<and> n \<le> 57) \<or> (65 \<le> n \<and> n \<le> 90) \<or> (97 \<le> n \<and> n \<le> 122))"

definition cp_data_name :: "nat \<Rightarrow> bool" where
  \<comment> \<open>\<open>[a-zA-Z0-9_-]\<close>\<close>
  "cp_data_name n = (cp_alnum n \<or> n = 95 \<or> n = 45)"

definition fold_case :: "nat \<Rightarrow> nat" where
  \<comment> \<open>\<open>re.IGNORECASE\<close> against a lower-case ASCII letter of the pattern: the upper-case
      letter, and the dotted capital I, the dotless i, the long s and the Kelvin sign\<close>
  "fold_case n = (if 65 \<le> n \<and> n \<le> 90 then n + 32
                  else if n = 304 \<or> n = 305 then 105
                  else if n = 383 then 115
                  else if n = 8490 then 107
                  else n)"

fun cp_drop_prefix :: "bool \<Rightarrow> string \<Rightarrow> nat list \<Rightarrow> nat list option" where
  "cp_drop_prefix ci [] s = Some s"
| "cp_drop_prefix ci (p # ps) [] = None"
| "cp_drop_prefix ci (p # ps) (c # cs) =
     (if (if ci then fold_case c else c) = of_char p then cp_drop_prefix ci ps cs else None)"

fun cp_after_first :: "bool \<Rightarrow> string \<Rightarrow> nat list \<Rightarrow> nat list option" where
  "cp_after_first ci lit [] = cp_drop_prefix ci lit []"
| "cp_after_first ci lit (c # cs) =
     (case cp_drop_prefix ci lit (c # cs) of
        Some r \<Rightarrow> Some r
      | None \<Rightarrow> cp_after_first ci lit cs)"

text \<open>\<open>re.sub(r'\s+', ' ', s)\<close>\<close>

function collapse_ws :: "nat list \<Rightarrow> nat list" where
  "collapse_ws [] = []"
| "collapse_ws (c # cs) =
     (if cp_space c then 32 # collapse_ws (dropWhile cp_space cs)
      else c # collapse_ws cs)"
  by pat_completeness auto
termination
  by (relation "measure length") (auto simp: length_dropWhile_le less_Suc_eq_le)

definition py_strip :: "nat list \<Rightarrow> nat list" where
  \<comment> \<open>\<open>str.strip()\<close>\<close>
  "py_strip s = rev (dropWhile cp_space (rev (dropWhile cp_space s)))"

definition match_block :: "string \<Rightarrow> nat list \<Rightarrow> nat list option" where
  \<comment> \<open>\<open><tag[^>]*>.*?</tag>\<close>, IGNORECASE and DOTALL; 62 is the closing angle bracket\<close>
  "match_block tag s =
     (case cp_drop_prefix True (CHR ''<'' # tag) s of
        None \<Rightarrow> None
      | Some r \<Rightarrow>
          (case after_char 62 r of
             None \<Rightarrow> None
           | Some b \<Rightarrow> cp_after_first True (''</'' @ tag @ ''>'') b))"

definition match_comment :: "nat list \<Rightarrow> nat list option" where
  \<comment> \<open>\<open><!--.*?-->\<close>, DOTALL\<close>
  "match_comment s =
     (case cp_drop_prefix False ''<!--'' s of
        None \<Rightarrow> None
      | Some r \<Rightarrow> cp_after_first False ''-->'' r)"

definition match_data_attr :: "nat list \<Rightarrow> nat list option" where
  \<comment> \<open>\<open>\s+data-[a-zA-Z0-9_-]+="[^"]*"\<close>; 34 is the double quote\<close>
  "match_data_attr s =
     (if takeWhile cp_space s = [] then None
      else (case cp_drop_prefix False ''data-'' (dropWhile cp_space s) of
              None \<Rightarrow> None
            | Some r \<Rightarrow>
                if takeWhile cp_data_name r = [] then None
                else (case cp_drop_prefix False [CHR ''='', CHR 0x22] (dropWhile cp_data_name r) of
                        None \<Rightarrow> None
                      | Some v \<Rightarrow> after_char 34 v)))"

definition match_session_id :: "nat list \<Rightarrow> nat list option" where
  \<comment> \<open>\<open>\s+id="[a-zA-Z0-9]{20,}"\<close>\<close>
  "match_session_id s =
     (if takeWhile cp_space s = [] then None
      else (case cp_drop_prefix False [CHR ''i'', CHR ''d'', CHR ''='', CHR 0x22] (dropWhile cp_space s) of
              None \<Rightarrow> None
            | Some r \<Rightarrow>
                if length (takeWhile cp_alnum r) < 20 then None
                else cp_drop_prefix False [CHR 0x22] (dropWhile cp_alnum r)))"

definition clean_dom :: "nat list \<Rightarrow> nat list" where
  \<comment> \<open>the text that \<open>compute_dom_hash\<close> encodes and hashes\<close>
  "clean_dom html =
     (let c1 = sub_all (match_block ''script'') html;
          c2 = sub_all (match_block ''iframe'') c1;
          c3 = sub_all (match_block ''noscript'') c2;
          c4 = sub_all (match_block ''style'') c3;
          c5 = sub_all match_comment c4;
          c6 = sub_all match_data_attr c5;
          c7 = sub_all match_session_id c6;
          c8 = collapse_ws c7
      in py_strip c8)"

definition is_surrogate :: "nat \<Rightarrow> bool" where
  "is_surrogate n = (55296 \<le> n \<and> n \<le> 57343)"

definition utf8_bytes :: "nat \<Rightarrow> 8 word list" where
  \<comment> \<open>the UTF-8 bytes of a code point that is no surrogate\<close>
  "utf8_bytes n =
     (if n < 128 then [of_nat n]
      else if n < 2048 then [of_nat (192 + n div 64), of_nat (128 + n mod 64)]
      else if n < 65536 then
        [of_nat (224 + n div 4096), of_nat (128 + n div 64 mod 64), of_nat (128 + n mod 64)]
      else
        [of_nat (240 + n div 262144), of_nat (128 + n div 4096 mod 64),
         of_nat (128 + n div 64 mod 64), of_nat (128 + n mod 64)])"

definition utf8_encode :: "nat list \<Rightarrow> py_error + 8 word list" where
  \<comment> \<open>\<open>str.encode('utf-8')\<close>: a lone surrogate raises UnicodeEncodeError\<close>
  "utf8_encode s =
     (if list_ex is_surrogate s then Inl UnicodeEncodeError
      else Inr (concat (map utf8_bytes s)))"

definition hex_digit :: "nat \<Rightarrow> char" where
  "hex_digit n = ''0123456789abcdef'' ! (n mod 16)"

definition hexdigest :: "256 word \<Rightarrow> string" where
  \<comment> \<open>the 64 hexadecimal digits of a 256-bit digest, most significant first\<close>
  "hexdigest d = map (\<lambda>i. hex_digit (unat (drop_bit (4 * (63 - i)) d))) [0..<64]"

text \<open>
  \<open>hashlib.sha256\<close> is a library function: it is the parameter \<open>sha256\<close>, from the encoded
  bytes to the 256-bit digest.  The encoding stands outside any \<open>try\<close>, so its exception
  leaves \<open>compute_dom_hash\<close>.
\<close>

definition compute_dom_hash :: "(8 word list \<Rightarrow> 256 word) \<Rightarrow> nat list \<Rightarrow> py_error + string" where
  "compute_dom_hash sha256 html =
     (case utf8_encode (clean_dom html) of
        Inl e \<Rightarrow> Inl e
      | Inr bytes \<Rightarrow> Inr (hexdigest (sha256 bytes)))"

definition get_cache_key :: "string \<Rightarrow> string \<Rightarrow> string" where
  \<comment> \<open>\<open>_get_cache_key\<close>: \<open>f"audit:{dom_hash[:16]}:{url[:100]}"\<close>\<close>
  "get_cache_key url dom_hash = ''audit:'' @ take 16 dom_hash @ '':'' @ take 100 url"

definition is_lower_hex :: "char \<Rightarrow> bool" where
  "is_lower_hex c = (let n = (of_char c :: nat) in (48 \<le> n \<and> n \<le> 57) \<or> (97 \<le> n \<and> n \<le> 102))"

section \<open>Values and records\<close>

text \<open>
  What \<open>json.loads\<close> returns from an oracle's answer.  A float is kept as far as the
  program can observe it: the integer it equals, or any other float.
\<close>

datatype pyfloat = FloatInt int | FloatOther

datatype json =
    JNull
  | JBool bool
  | JInt int
  | JFloat pyfloat
  | JStr string
  | JArr "json list"
  | JObj "(string \<times> json) list"

fun truthy :: "json \<Rightarrow> bool" where
  "truthy JNull = False"
| "truthy (JBool b) = b"
| "truthy (JInt n) = (n \<noteq> 0)"
| "truthy (JFloat (FloatInt n)) = (n \<noteq> 0)"
| "truthy (JFloat FloatOther) = True"
| "truthy (JStr s) = (s \<noteq> [])"
| "truthy (JArr xs) = (xs \<noteq> [])"
| "truthy (JObj kvs) = (kvs \<noteq> [])"

fun is_obj :: "json \<Rightarrow> bool" where
  "is_obj (JObj kvs) = True"
| "is_obj _ = False"

definition jget :: "(string \<times> json) list \<Rightarrow> string \<Rightarrow> json \<Rightarrow> json" where
  \<comment> \<open>\<open>d.get(k, default)\<close>\<close>
  "jget d k dflt = (case map_of d k of None \<Rightarrow> dflt | Some v \<Rightarrow> v)"

definition get_or :: "'a option \<Rightarrow> 'a \<Rightarrow> 'a" where
  \<comment> \<open>\<open>d.get(k, default)\<close> for a key of a record\<close>
  "get_or v dflt = (case v of None \<Rightarrow> dflt | Some x \<Rightarrow> x)"

definition is_substring :: "string \<Rightarrow> string \<Rightarrow> bool" where
  \<comment> \<open>\<open>b in s\<close> on strings\<close>
  "is_substring b s = occurs (drop_prefix False b) s"

type_synonym issue = "(string \<times> json) list"

record node =
  n_html :: string
  n_target :: string

record finding =
  f_id :: "string option"
  f_impact :: "string option"
  f_description :: "string option"
  f_help :: "string option"
  f_selector :: "string option"
  f_count :: "int option"
  f_nodes :: "node list option"
  f_nodes_affected :: "int option"
  f_rule :: "string option"
  f_wcag_sc :: "string option"
  f_wcag_title :: "string option"
  f_gigw_checkpoint :: "string option"
  f_fix_priority :: "string option"
  f_specific_nodes :: "node list option"
  f_india_priority :: "string option"

record tab_entry =
  te_tag :: "string option"
  te_text :: "string option"
  te_id :: "string option"

record element =
  el_text :: "string option"
  el_html :: "string option"
  el_tag :: "string option"

record dom_evidence =
  links :: "json list option"
  headings :: "json list option"
  interactive :: "element list option"

record audit_state =
  st_url :: "string option"
  st_error :: "string option"
  raw_violations :: "finding list option"
  screenshot_b64 :: "string option option"
  dom_content :: "dom_evidence option"
  tab_log :: "tab_entry list option"
  dom_hash :: "string option"
  critiqued_issues :: "issue list option"
  vision_issues :: "issue list option"
  semantic_issues :: "issue list option"
  interaction_issues :: "issue list option"
  final_report :: "issue list option"

definition no_keys :: audit_state where
  \<comment> \<open>the empty dictionary\<close>
  "no_keys = \<lparr>st_url = None, st_error = None, raw_violations = None, screenshot_b64 = None,
     dom_content = None, tab_log = None, dom_hash = None, critiqued_issues = None,
     vision_issues = None, semantic_issues = None, interaction_issues = None,
     final_report = None\<rparr>"

definition override :: "'a option \<Rightarrow> 'a option \<Rightarrow> 'a option" where
  "override old new = (case new of None \<Rightarrow> old | Some v \<Rightarrow> Some v)"

text \<open>
  The graph runner (a library) is built on \<open>AuditState\<close>.  It hands each stage the state
  and merges the dictionary the stage returns into it, key by key, for the keys that
  \<open>AuditState\<close> declares.  \<open>error\<close> is not among them (backend/graph/state.py), so an
  \<open>error\<close> key that a stage returns is dropped and the state never holds one.
\<close>

definition merge_state :: "audit_state \<Rightarrow> audit_state \<Rightarrow> audit_state" where
  "merge_state st upd =
     \<lparr>st_url = override (st_url st) (st_url upd),
      st_error = None,
      raw_violations = override (raw_violations st) (raw_violations upd),
      screenshot_b64 = override (screenshot_b64 st) (screenshot_b64 upd),
      dom_content = override (dom_content st) (dom_content upd),
      tab_log = override (tab_log st) (tab_log upd),
      dom_hash = override (dom_hash st) (dom_hash upd),
      critiqued_issues = override (critiqued_issues st) (critiqued_issues upd),
      vision_issues = override (vision_issues st) (vision_issues upd),
      semantic_issues = override (semantic_issues st) (semantic_issues upd),
      interaction_issues = override (interaction_issues st) (interaction_issues upd),
      final_report = override (final_report st) (final_report upd)\<rparr>"

section \<open>Input guard (guardrails/input\_guard.py)\<close>

definition BLOCKED_DOMAINS :: "string list" where
  "BLOCKED_DOMAINS = [''malicious-site.com'', ''phishing.org'', ''example-blocked.net'']"

definition has_scheme :: "string \<Rightarrow> bool" where
  \<comment> \<open>\<open>re.match(r'^https?://', url)\<close>\<close>
  "has_scheme url =
     (case drop_prefix False ''http://'' url of
        Some _ \<Rightarrow> True
      | None \<Rightarrow> (case drop_prefix False ''https://'' url of Some _ \<Rightarrow> True | None \<Rightarrow> False))"

definition is_blocked :: "string \<Rightarrow> bool" where
  \<comment> \<open>\<open>any(blocked in domain for blocked in BLOCKED_DOMAINS)\<close>\<close>
  "is_blocked domain = list_ex (\<lambda>blocked. is_substring blocked domain) BLOCKED_DOMAINS"

text \<open>
  \<open>urlparse(url).netloc\<close> is a library call: the parameter \<open>netloc_of\<close> gives the host
  part, or on the left the message of the exception it raises.
\<close>

definition validate_input :: "(string \<Rightarrow> string + string) \<Rightarrow> audit_state \<Rightarrow> audit_state" where
  "validate_input netloc_of state =
     (let url = get_or (st_url state) [] in
      if url = [] then no_keys\<lparr>st_error := Some ''URL is missing''\<rparr>
      else if has_scheme url then
        (case netloc_of url of
           Inl e \<Rightarrow> no_keys\<lparr>st_error := Some (''URL parsing failed: '' @ e)\<rparr>
         | Inr domain \<Rightarrow>
             if is_blocked domain
             then no_keys\<lparr>st_error := Some (''Domain '' @ domain @ '' is in the blocklist.'')\<rparr>
             else no_keys\<lparr>st_url := Some url\<rparr>)
      else no_keys\<lparr>st_error :=
             Some ''Invalid URL format. Must start with http:// or https://''\<rparr>)"

section \<open>Rule table (tools/wcag\_mapper.py)\<close>

record rule_def =
  rd_sc :: string
  rd_level :: string
  rd_since :: string
  rd_title :: string
  rd_india_priority :: string

definition WCAG_RULES :: "(string \<times> rule_def) list" where
  "WCAG_RULES = [
    (''accesskeys'', \<lparr>rd_sc = ''2.1.4'', rd_level = ''A'', rd_since = ''2.1'', rd_title = ''Character Key Shortcuts'', rd_india_priority = ''LOW''\<rparr>),
    (''aria-allowed-attr'', \<lparr>rd_sc = ''4.1.2'', rd_level = ''A'', rd_since = ''2.1'', rd_title = ''Name, Role, Value'', rd_india_priority = ''HIGH''\<rparr>),
    (''aria-hidden-body'', \<lparr>rd_sc = ''4.1.2'', rd_level = ''A'', rd_since = ''2.1'', rd_title = ''Name, Role, Value'', rd_india_priority = ''HIGH''\<rparr>),
    (''aria-hidden-focus'', \<lparr>rd_sc = ''4.1.2'', rd_level = ''A'', rd_since = ''2.1'', rd_title = ''Name, Role, Value'', rd_india_priority = ''HIGH''\<rparr>),
    (''aria-input-field-name'', \<lparr>rd_sc = ''4.1.2'', rd_level = ''A'', rd_since = ''2.1'', rd_title = ''Name, Role, Value'', rd_india_priority = ''HIGH''\<rparr>),
    (''aria-required-attr'', \<lparr>rd_sc = ''4.1.2'', rd_level = ''A'', rd_since = ''2.1'', rd_title = ''Name, Role, Value'', rd_india_priority = ''HIGH''\<rparr>),
    (''aria-required-children'', \<lparr>rd_sc = ''1.3.1'', rd_level = ''A'', rd_since = ''2.1'', rd_title = ''Info and Relationships'', rd_india_priority = ''MEDIUM''\<rparr>),
    (''aria-roles'', \<lparr>rd_sc = ''4.1.2'', rd_level = ''A'', rd_since = ''2.1'', rd_title = ''Name, Role, Value'', rd_india_priority = ''HIGH''\<rparr>),
    (''aria-valid-attr-value'', \<lparr>rd_sc = ''4.1.2'', rd_level = ''A'', rd_since = ''2.1'', rd_title = ''Name, Role, Value'', rd_india_priority = ''HIGH''\<rparr>),
    (''aria-valid-attr'', \<lparr>rd_sc = ''4.1.2'', rd_level = ''A'', rd_since = ''2.1'', rd_title = ''Name, Role, Value'', rd_india_priority = ''HIGH''\<rparr>),
    (''button-name'', \<lparr>rd_sc = ''4.1.2'', rd_level = ''A'', rd_since = ''2.1'', rd_title = ''Name, Role, Value'', rd_india_priority = ''CRITICAL''\<rparr>),
    (''bypass'', \<lparr>rd_sc = ''2.4.1'', rd_level = ''A'', rd_since = ''2.1'', rd_title = ''Bypass Blocks'', rd_india_priority = ''HIGH''\<rparr>),
    (''color-contrast'', \<lparr>rd_sc = ''1.4.3'', rd_level = ''AA'', rd_since = ''2.1'', rd_title = ''Contrast (Minimum)'', rd_india_priority = ''CRITICAL''\<rparr>),
    (''document-title'', \<lparr>rd_sc = ''2.4.2'', rd_level = ''A'', rd_since = ''2.1'', rd_title = ''Page Titled'', rd_india_priority = ''HIGH''\<rparr>),
    (''frame-title'', \<lparr>rd_sc = ''4.1.2'', rd_level = ''A'', rd_since = ''2.1'', rd_title = ''Name, Role, Value'', rd_india_priority = ''MEDIUM''\<rparr>),
    (''html-has-lang'', \<lparr>rd_sc = ''3.1.1'', rd_level = ''A'', rd_since = ''2.1'', rd_title = ''Language of Page'', rd_india_priority = ''HIGH''\<rparr>),
    (''html-lang-valid'', \<lparr>rd_sc = ''3.1.1'', rd_level = ''A'', rd_since = ''2.1'', rd_title = ''Language of Page'', rd_india_priority = ''HIGH''\<rparr>),
    (''image-alt'', \<lparr>rd_sc = ''1.1.1'', rd_level = ''A'', rd_since = ''2.1'', rd_title = ''Non-text Content'', rd_india_priority = ''CRITICAL''\<rparr>),
    (''input-image-alt'', \<lparr>rd_sc = ''1.1.1'', rd_level = ''A'', rd_since = ''2.1'', rd_title = ''Non-text Content'', rd_india_priority = ''CRITICAL''\<rparr>),
    (''label'', \<lparr>rd_sc = ''3.3.2'', rd_level = ''A'', rd_since = ''2.1'', rd_title = ''Labels or Instructions'', rd_india_priority = ''CRITICAL''\<rparr>),
    (''link-name'', \<lparr>rd_sc = ''2.4.4'', rd_level = ''A'', rd_since = ''2.1'', rd_title = ''Link Purpose (In Context)'', rd_india_priority = ''HIGH''\<rparr>),
    (''meta-viewport'', \<lparr>rd_sc = ''1.4.4'', rd_level = ''AA'', rd_since = ''2.1'', rd_title = ''Resize Text'', rd_india_priority = ''MEDIUM''\<rparr>),
    (''tabindex'', \<lparr>rd_sc = ''2.1.1'', rd_level = ''A'', rd_since = ''2.1'', rd_title = ''Keyboard'', rd_india_priority = ''MEDIUM''\<rparr>),
    (''select-name'', \<lparr>rd_sc = ''4.1.2'', rd_level = ''A'', rd_since = ''2.1'', rd_title = ''Name, Role, Value'', rd_india_priority = ''CRITICAL''\<rparr>),
    (''focus-not-obscured'', \<lparr>rd_sc = ''2.4.11'', rd_level = ''AA'', rd_since = ''2.2'', rd_title = ''Focus Not Obscured'', rd_india_priority = ''MEDIUM''\<rparr>),
    (''focus-appearance'', \<lparr>rd_sc = ''2.4.11'', rd_level = ''AA'', rd_since = ''2.2'', rd_title = ''Focus Appearance'', rd_india_priority = ''MEDIUM''\<rparr>),
    (''target-size'', \<lparr>rd_sc = ''2.5.8'', rd_level = ''AA'', rd_since = ''2.2'', rd_title = ''Target Size (Minimum)'', rd_india_priority = ''MEDIUM''\<rparr>),
    (''dragging-movements'', \<lparr>rd_sc = ''2.5.7'', rd_level = ''A'', rd_since = ''2.2'', rd_title = ''Dragging Movements'', rd_india_priority = ''LOW''\<rparr>),
    (''consistent-help'', \<lparr>rd_sc = ''3.2.6'', rd_level = ''A'', rd_since = ''2.2'', rd_title = ''Consistent Help'', rd_india_priority = ''LOW''\<rparr>),
    (''redundant-entry'', \<lparr>rd_sc = ''3.3.7'', rd_level = ''A'', rd_since = ''2.2'', rd_title = ''Redundant Entry'', rd_india_priority = ''LOW''\<rparr>),
    (''accessible-authentication-minimum'', \<lparr>rd_sc = ''3.3.8'', rd_level = ''A'', rd_since = ''2.2'', rd_title = ''Accessible Authentication'', rd_india_priority = ''MEDIUM''\<rparr>),
    (''heading-order'', \<lparr>rd_sc = ''G130'', rd_level = ''Best'', rd_since = ''2.1'', rd_title = ''Heading Order'', rd_india_priority = ''MEDIUM''\<rparr>),
    (''landmark-one-main'', \<lparr>rd_sc = ''Best'', rd_level = ''Best'', rd_since = ''2.1'', rd_title = ''One Main Landmark'', rd_india_priority = ''MEDIUM''\<rparr>),
    (''page-has-heading-one'', \<lparr>rd_sc = ''Best'', rd_level = ''Best'', rd_since = ''2.1'', rd_title = ''Page should have <h1>'', rd_india_priority = ''HIGH''\<rparr>),
    (''region'', \<lparr>rd_sc = ''Best'', rd_level = ''Best'', rd_since = ''2.1'', rd_title = ''Landmark Regions'', rd_india_priority = ''MEDIUM''\<rparr>)]"

definition GIGW_MAPPING :: "(string \<times> string) list" where
  "GIGW_MAPPING = [
    (''1.1.1'', ''9.1.1 (Non-text Content)''),
    (''1.3.1'', ''9.1.3 (Info and Relationships)''),
    (''1.4.3'', ''9.1.4 (Contrast Minimum)''),
    (''2.1.1'', ''9.2.1 (Keyboard)''),
    (''2.4.1'', ''9.2.4 (Bypass Blocks)''),
    (''2.4.2'', ''9.2.4 (Page Titled)''),
    (''2.4.4'', ''9.2.4 (Link Purpose)''),
    (''3.1.1'', ''9.3.1 (Language of Page)''),
    (''3.3.2'', ''9.3.3 (Labels or Instructions)''),
    (''4.1.2'', ''9.4.1 (Name, Role, Value)'')]"

definition enrich_with_wcag :: "finding \<Rightarrow> finding" where
  "enrich_with_wcag violation =
     (let rule_id = get_or (f_id violation) ''unknown'';
          data = (case map_of WCAG_RULES rule_id of
                    Some d \<Rightarrow> d
                  | None \<Rightarrow> \<lparr>rd_sc = ''Unknown'', rd_level = ''?'', rd_since = ''2.1'',
                              rd_title = get_or (f_help violation) rule_id,
                              rd_india_priority = ''LOW''\<rparr>);
          india_priority = rd_india_priority data;
          specific_nodes = get_or (f_nodes violation) [];
          wcag_sc = rd_sc data;
          gigw_checkpoint = get_or (map_of GIGW_MAPPING wcag_sc) ''N/A - Best Practice''
      in violation\<lparr>
           f_rule := Some rule_id,
           f_wcag_sc := Some wcag_sc,
           f_wcag_title := Some (rd_title data),
           f_gigw_checkpoint := Some gigw_checkpoint,
           f_fix_priority := Some (if india_priority = ''CRITICAL'' then ''HIGH'' else ''MEDIUM''),
           f_specific_nodes := Some specific_nodes,
           f_india_priority := Some india_priority\<rparr>)"

section \<open>Two-tier classifier (slm/fast\_critic.py)\<close>

fun heuristic_loop :: "string list \<Rightarrow> finding list \<Rightarrow> finding list" where
  "heuristic_loop seen_selectors [] = []"
| "heuristic_loop seen_selectors (issue # rest) =
     (let rule = get_or (f_id issue) [];
          impact = get_or (f_impact issue) [];
          selector = get_or (f_selector issue) []
      in if rule = ''color-contrast'' \<and> impact = ''minor'' then heuristic_loop seen_selectors rest
         else if rule = ''region'' then heuristic_loop seen_selectors rest
         else if selector \<noteq> [] \<and> selector \<in> set seen_selectors then heuristic_loop seen_selectors rest
         else if get_or (f_nodes issue) [] = [] \<and> get_or (f_specific_nodes issue) [] = []
           then heuristic_loop seen_selectors rest
         else issue # heuristic_loop (if selector \<noteq> [] then selector # seen_selectors
                                      else seen_selectors) rest)"

definition heuristic_filter :: "finding list \<Rightarrow> finding list" where
  "heuristic_filter issues = heuristic_loop [] issues"

text \<open>\<open>set(v)\<close> on a parsed value: its elements, or nothing where Python raises TypeError.\<close>

fun hashable :: "json \<Rightarrow> bool" where
  "hashable (JArr xs) = False"
| "hashable (JObj kvs) = False"
| "hashable _ = True"

fun py_set :: "json \<Rightarrow> json list option" where
  "py_set (JArr xs) = (if list_all hashable xs then Some xs else None)"
| "py_set (JStr s) = Some (map (\<lambda>c. JStr [c]) s)"
| "py_set (JObj kvs) = Some (map (\<lambda>kv. JStr (fst kv)) kvs)"
| "py_set _ = None"

text \<open>\<open>i == x\<close> for an index \<open>i\<close>: integers, floats and booleans compare by value.\<close>

fun eq_index :: "nat \<Rightarrow> json \<Rightarrow> bool" where
  "eq_index i (JInt k) = (k = int i)"
| "eq_index i (JFloat (FloatInt k)) = (k = int i)"
| "eq_index i (JBool b) = (int i = (if b then 1 else 0))"
| "eq_index i _ = False"

text \<open>
  The call of the model, the removal of code fences and \<open>json.loads\<close> are the parameter
  \<open>slm\<close>: the parsed answer to the prompt built from the findings, or \<open>None\<close> where
  the call or the parser raises.
\<close>

definition model_based_filter ::
    "bool \<Rightarrow> (finding list \<Rightarrow> json option) \<Rightarrow> finding list \<Rightarrow> finding list" where
  "model_based_filter USE_MODEL_SLM slm issues =
     (if USE_MODEL_SLM \<and> issues \<noteq> [] then
        (case slm issues of
           Some (JObj data) \<Rightarrow>
             (case py_set (jget data ''keep_indices'' (JArr [])) of
                Some keep_indices \<Rightarrow>
                  map snd (filter (\<lambda>(i, issue). list_ex (eq_index i) keep_indices)
                                  (enumerate 0 issues))
              | None \<Rightarrow> issues)
         | _ \<Rightarrow> issues)
      else issues)"

definition fast_critique ::
    "bool \<Rightarrow> (finding list \<Rightarrow> json option) \<Rightarrow> finding list \<Rightarrow> finding list" where
  "fast_critique USE_MODEL_SLM slm issues0 =
     (let issues = heuristic_filter issues0 in
      if USE_MODEL_SLM \<and> issues \<noteq> [] then model_based_filter USE_MODEL_SLM slm issues
      else issues)"

section \<open>Issue grouper (tools/critic.py)\<close>

record grouped =
  g_rule :: string
  g_description :: string
  g_wcag_sc :: string
  g_fix_priority :: string
  total_occurrences :: int
  code_snippets :: "node list"

definition add_to_group :: "finding \<Rightarrow> grouped \<Rightarrow> grouped" where
  \<comment> \<open>the counter and the snippets of the group of one finding\<close>
  "add_to_group issue g =
     (let g1 = g\<lparr>total_occurrences := total_occurrences g + get_or (f_nodes_affected issue) 1\<rparr>;
          new_nodes = get_or (f_specific_nodes issue) []
      in if length (code_snippets g1) < 5
         then g1\<lparr>code_snippets := code_snippets g1 @ new_nodes\<rparr>
         else g1)"

definition critique_step :: "grouped list \<Rightarrow> finding \<Rightarrow> grouped list" where
  "critique_step groups issue =
     (let rule_id = get_or (f_rule issue) ''unknown'';
          groups1 = (if rule_id \<in> set (map g_rule groups) then groups
                     else groups @ [\<lparr>g_rule = rule_id,
                            g_description = get_or (f_description issue) [],
                            g_wcag_sc = get_or (f_wcag_sc issue) ''Unknown'',
                            g_fix_priority = get_or (f_fix_priority issue) ''LOW'',
                            total_occurrences = 0,
                            code_snippets = []\<rparr>])
      in map (\<lambda>g. if g_rule g = rule_id then add_to_group issue g else g) groups1)"

definition critique_issues :: "finding list \<Rightarrow> grouped list" where
  "critique_issues issues = foldl critique_step [] issues"

section \<open>Pipeline stages (graph/nodes.py)\<close>

definition set_key :: "string \<Rightarrow> json \<Rightarrow> issue \<Rightarrow> issue" where
  \<comment> \<open>\<open>d[k] = v\<close>: the value is replaced in place, a new key goes to the end\<close>
  "set_key k v d = (if k \<in> set (map fst d) then map (\<lambda>kv. if fst kv = k then (k, v) else kv) d
                    else d @ [(k, v)])"

function str_nat :: "nat \<Rightarrow> string" where
  \<comment> \<open>\<open>str(n)\<close>\<close>
  "str_nat n = (if n < 10 then [hex_digit n] else str_nat (n div 10) @ [hex_digit (n mod 10)])"
  by pat_completeness auto
termination
  by (relation "measure id") auto

record scan_result =
  sr_error :: "string option"
  sr_violations :: "finding list option"
  sr_screenshot :: "string option option"
  sr_html :: "nat list option"
  sr_dom_content :: "dom_evidence option"
  sr_tab_log :: "tab_entry list option"

definition no_evidence :: dom_evidence where
  "no_evidence = \<lparr>links = None, headings = None, interactive = None\<rparr>"

text \<open>
  \<open>scan_page\<close> drives the browser: it is the parameter \<open>scan_page\<close>.  \<open>state["url"]\<close>
  raises KeyError where the key is missing.  The fingerprint is computed inside a \<open>try\<close>:
  where \<open>compute_dom_hash\<close> raises, the hash stays empty.
\<close>

definition scanner_node ::
    "(8 word list \<Rightarrow> 256 word) \<Rightarrow> (string \<Rightarrow> scan_result) \<Rightarrow> audit_state \<Rightarrow> py_error + audit_state" where
  "scanner_node sha256 scan_page state =
     (case st_error state of
        Some e \<Rightarrow> Inr (no_keys\<lparr>st_error := Some e\<rparr>)
      | None \<Rightarrow>
          (case st_url state of
             None \<Rightarrow> Inl KeyError
           | Some url \<Rightarrow>
               (let result = scan_page url in
                case sr_error result of
                  Some _ \<Rightarrow> Inr (no_keys\<lparr>raw_violations := Some [], screenshot_b64 := Some None,
                                 dom_content := Some no_evidence, tab_log := Some [],
                                 dom_hash := Some []\<rparr>)
                | None \<Rightarrow>
                    (let raw_list = get_or (sr_violations result) [];
                         enriched = map enrich_with_wcag raw_list;
                         html = get_or (sr_html result) [];
                         hash = (if html \<noteq> []
                                 then (case compute_dom_hash sha256 html of
                                         Inr h \<Rightarrow> h
                                       | Inl e \<Rightarrow> [])
                                 else [])
                     in Inr (no_keys\<lparr>raw_violations := Some enriched,
                               screenshot_b64 := Some (get_or (sr_screenshot result) None),
                               dom_content := Some (get_or (sr_dom_content result) no_evidence),
                               tab_log := Some (get_or (sr_tab_log result) []),
                               dom_hash := Some hash\<rparr>)))))"

definition node_json :: "node \<Rightarrow> json" where
  "node_json n = JObj [(''html'', JStr (n_html n)), (''target'', JStr (n_target n))]"

definition critic_issue :: "grouped \<Rightarrow> issue" where
  \<comment> \<open>one grouped record as \<open>critic_node\<close> leaves it\<close>
  "critic_issue c =
     (let d = [(''rule'', JStr (g_rule c)), (''description'', JStr (g_description c)),
               (''wcag_sc'', JStr (g_wcag_sc c)), (''fix_priority'', JStr (g_fix_priority c)),
               (''total_occurrences'', JInt (total_occurrences c)),
               (''code_snippets'', JArr (map node_json (code_snippets c))),
               (''category'', JStr ''syntax'')]
      in case code_snippets c of
           [] \<Rightarrow> d
         | first # _ \<Rightarrow>
             set_key ''selector'' (JStr (n_target first))
               (set_key ''html_snippet'' (JStr (n_html first)) d))"

definition critic_node ::
    "bool \<Rightarrow> (finding list \<Rightarrow> json option) \<Rightarrow> audit_state \<Rightarrow> audit_state" where
  "critic_node USE_MODEL_SLM slm state =
     (let issues = fast_critique USE_MODEL_SLM slm (get_or (raw_violations state) []);
          critiqued = critique_issues issues
      in no_keys\<lparr>critiqued_issues := Some (map critic_issue critiqued)\<rparr>)"

definition semantic_issue :: "(string \<times> json) list \<Rightarrow> issue" where
  "semantic_issue item =
     [(''rule'', jget item ''rule'' (JStr ''semantic-issue'')),
      (''category'', JStr ''semantic''),
      (''description'', jget item ''description'' (JStr ''Semantic issue found.'')),
      (''fix_priority'', JStr ''MEDIUM''),
      (''wcag_sc'', JStr ''2.4.4''),
      (''html_snippet'', jget item ''html_snippet'' (JStr ''Semantic Analysis'')),
      (''selector'', jget item ''selector'' (JStr ''N/A'')),
      (''ai_explanation'', jget item ''description'' JNull),
      (''ai_fixed_code'', jget item ''fix'' (JStr ''Update the text or structure.''))]"

text \<open>
  The items of an answer: every item must be an object, since \<open>item.get\<close> raises on
  anything else and the stage then returns the empty list; so does iterating over a value
  that is no list.  A string or an object is iterated over its characters or keys, which
  are no objects.
\<close>

fun items_of :: "json \<Rightarrow> (string \<times> json) list list option" where
  "items_of (JArr []) = Some []"
| "items_of (JArr (JObj kvs # xs)) = map_option ((#) kvs) (items_of (JArr xs))"
| "items_of (JArr (_ # xs)) = None"
| "items_of (JStr s) = (if s = [] then Some [] else None)"
| "items_of (JObj kvs) = (if kvs = [] then Some [] else None)"
| "items_of _ = None"

text \<open>
  \<open>llm.invoke\<close>, the removal of code fences and \<open>json.loads\<close> are one parameter per
  stage: the parsed answer, or \<open>None\<close> where the call or the parser raises.
\<close>

definition semantic_node ::
    "(json list \<Rightarrow> json list \<Rightarrow> json option) \<Rightarrow> audit_state \<Rightarrow> audit_state" where
  "semantic_node llm state =
     (let content = get_or (dom_content state) no_evidence;
          lnks = get_or (links content) [];
          hds = get_or (headings content) []
      in if lnks = [] \<and> hds = [] then no_keys\<lparr>semantic_issues := Some []\<rparr>
         else (case llm (take 20 lnks) (take 20 hds) of
                 Some (JObj data) \<Rightarrow>
                   (case items_of (jget data ''issues'' (JArr [])) of
                      Some items \<Rightarrow> no_keys\<lparr>semantic_issues := Some (map semantic_issue items)\<rparr>
                    | None \<Rightarrow> no_keys\<lparr>semantic_issues := Some []\<rparr>)
               | _ \<Rightarrow> no_keys\<lparr>semantic_issues := Some []\<rparr>))"

definition vision_issue :: "(string \<times> json) list \<Rightarrow> issue" where
  "vision_issue i =
     [(''rule'', JStr ''visual-ai-scan''),
      (''category'', JStr ''visual''),
      (''fix_priority'', JStr ''HIGH''),
      (''wcag_sc'', JStr ''1.4.3''),
      (''description'', jget i ''description'' JNull),
      (''html_snippet'', JStr ''Visual Detection''),
      (''ai_explanation'', jget i ''explanation'' JNull),
      (''ai_fixed_code'', JStr ''Check CSS contrast/spacing.'')]"

definition vision_analyzer_node :: "(string \<Rightarrow> json option) \<Rightarrow> audit_state \<Rightarrow> audit_state" where
  "vision_analyzer_node llm state =
     (case get_or (screenshot_b64 state) None of
        None \<Rightarrow> no_keys\<lparr>vision_issues := Some []\<rparr>
      | Some shot \<Rightarrow>
          if shot = [] then no_keys\<lparr>vision_issues := Some []\<rparr>
          else (case llm shot of
                  Some (JObj data) \<Rightarrow>
                    (case items_of (jget data ''vision_issues'' (JArr [])) of
                       Some items \<Rightarrow> no_keys\<lparr>vision_issues := Some (map vision_issue items)\<rparr>
                     | None \<Rightarrow> no_keys\<lparr>vision_issues := Some []\<rparr>)
                | _ \<Rightarrow> no_keys\<lparr>vision_issues := Some []\<rparr>))"

definition non_interactive_tags :: "string list" where
  "non_interactive_tags = [''DIV'', ''SPAN'', ''P'', ''H1'', ''H2'', ''H3'', ''H4'', ''H5'', ''H6'']"

fun first_duplicate :: "string list \<Rightarrow> tab_entry list \<Rightarrow> string option" where
  \<comment> \<open>the loop over the log with \<open>ids_seen\<close>, left at the first identifier seen before\<close>
  "first_duplicate ids_seen [] = None"
| "first_duplicate ids_seen (item # rest) =
     (let elem_id = get_or (te_id item) [] in
      if elem_id \<noteq> [] then
        (if elem_id \<in> set ids_seen then Some elem_id
         else first_duplicate (elem_id # ids_seen) rest)
      else first_duplicate ids_seen rest)"

definition focus_lost_issue :: "nat \<Rightarrow> issue" where
  "focus_lost_issue n =
     [(''rule'', JStr ''keyboard-focus-lost''),
      (''category'', JStr ''interaction''),
      (''fix_priority'', JStr ''CRITICAL''),
      (''wcag_sc'', JStr ''2.4.7''),
      (''description'', JStr (''Focus lost to <body> tag '' @ str_nat n @ '' times during keyboard navigation. This indicates a focus trap or missing focus management.'')),
      (''html_snippet'', JStr ''Focus management issue detected''),
      (''ai_explanation'', JStr ''When users press Tab, focus should move to the next interactive element. If focus jumps to <body>, users lose track of where they are on the page.''),
      (''ai_fixed_code'', JStr (''Ensure all interactive elements are keyboard accessible. Add tabindex='' @ [CHR 0x27] @ ''0'' @ [CHR 0x27] @ '' to custom interactive elements or use semantic HTML like <button> instead of <div>.''))]"

definition non_interactive_issue :: "nat \<Rightarrow> string option \<Rightarrow> issue" where
  \<comment> \<open>\<open>tag\<close> is \<open>non_interactive_focused[0].get('tag')\<close>\<close>
  "non_interactive_issue n tag =
     [(''rule'', JStr ''non-interactive-tabindex''),
      (''category'', JStr ''interaction''),
      (''fix_priority'', JStr ''MEDIUM''),
      (''wcag_sc'', JStr ''2.4.3''),
      (''description'', JStr (''Found '' @ str_nat n @ '' non-interactive elements with keyboard focus, which can confuse keyboard users.'')),
      (''html_snippet'', JStr (''<'' @ get_or tag ''None'' @ '' tabindex='' @ [CHR 0x27] @ ''...'' @ [CHR 0x27] @ ''>'')),
      (''ai_explanation'', JStr ''Non-interactive elements (div, span, p) should not receive keyboard focus unless they have an interactive role.''),
      (''ai_fixed_code'', JStr (''Remove tabindex from non-interactive elements or add appropriate ARIA roles like role='' @ [CHR 0x27] @ ''button'' @ [CHR 0x27] @ '' if they are meant to be interactive.''))]"

definition limited_access_issue :: "nat \<Rightarrow> issue" where
  "limited_access_issue n =
     [(''rule'', JStr ''limited-keyboard-access''),
      (''category'', JStr ''interaction''),
      (''fix_priority'', JStr ''HIGH''),
      (''wcag_sc'', JStr ''2.1.1''),
      (''description'', JStr (''Only '' @ str_nat n @ '' elements are keyboard accessible. This page may have insufficient keyboard navigation.'')),
      (''html_snippet'', JStr ''Page-wide keyboard accessibility issue''),
      (''ai_explanation'', JStr ''A typical page should have many focusable elements (links, buttons, form inputs). Very few focusable elements suggests missing keyboard access.''),
      (''ai_fixed_code'', JStr ''Ensure all interactive elements (buttons, links, form controls) are keyboard accessible. Avoid using <div> or <span> for interactive elements without proper tabindex and ARIA roles.'')]"

definition duplicate_id_issue :: "string \<Rightarrow> issue" where
  "duplicate_id_issue elem_id =
     [(''rule'', JStr ''duplicate-id-focusable''),
      (''category'', JStr ''interaction''),
      (''fix_priority'', JStr ''CRITICAL''),
      (''wcag_sc'', JStr ''4.1.1''),
      (''description'', JStr (''Duplicate ID '' @ [CHR 0x27] @ elem_id @ [CHR 0x27] @ '' found on focusable elements. This breaks assistive technology.'')),
      (''html_snippet'', JStr (''<... id='' @ [CHR 0x27] @ elem_id @ [CHR 0x27] @ ''>'')),
      (''ai_explanation'', JStr ''IDs must be unique on a page. Duplicate IDs on focusable elements confuse screen readers and keyboard navigation.''),
      (''ai_fixed_code'', JStr (''Change one of the elements to use a unique ID, e.g., id='' @ [CHR 0x27] @ elem_id @ ''-2'' @ [CHR 0x27]))]"

definition interaction_issues_of :: "tab_entry list \<Rightarrow> issue list" where
  "interaction_issues_of log =
     (if log = [] then []
      else
        let body_focus = filter (\<lambda>item. te_tag item = Some ''BODY'') log;
            non_interactive_focused =
              filter (\<lambda>item. case te_tag item of None \<Rightarrow> False
                              | Some t \<Rightarrow> t \<in> set non_interactive_tags) log
        in (if 1 < length body_focus then [focus_lost_issue (length body_focus)] else [])
           @ (case non_interactive_focused of
                [] \<Rightarrow> []
              | first # _ \<Rightarrow>
                  [non_interactive_issue (length non_interactive_focused) (te_tag first)])
           @ (if length log < 5 then [limited_access_issue (length log)] else [])
           @ (case first_duplicate [] log of
                None \<Rightarrow> []
              | Some elem_id \<Rightarrow> [duplicate_id_issue elem_id]))"

definition interaction_node :: "audit_state \<Rightarrow> audit_state" where
  "interaction_node state =
     no_keys\<lparr>interaction_issues := Some (interaction_issues_of (get_or (tab_log state) []))\<rparr>"

subsection \<open>Fixer\<close>

definition py_lower :: "string \<Rightarrow> string" where
  \<comment> \<open>\<open>str.lower()\<close> on code points below 256\<close>
  "py_lower s = map (\<lambda>c. let n = (of_char c :: nat) in
       if (65 \<le> n \<and> n \<le> 90) \<or> (192 \<le> n \<and> n \<le> 222 \<and> n \<noteq> 215) then char_of (n + 32) else c) s"

text \<open>\<open>re.search(r"'(.*?)'", desc)\<close>: the first quoted text with no line feed in it.\<close>

fun until_quote :: "string \<Rightarrow> string option" where
  "until_quote [] = None"
| "until_quote (c # cs) =
     (if c = CHR 0x27 then Some []
      else if c = CHR 0x0A then None
      else map_option ((#) c) (until_quote cs))"

fun first_quoted :: "string \<Rightarrow> string option" where
  "first_quoted [] = None"
| "first_quoted (c # cs) =
     (if c = CHR 0x27 then
        (case until_quote cs of Some g \<Rightarrow> Some g | None \<Rightarrow> first_quoted cs)
      else first_quoted cs)"

definition already_fixed :: "issue \<Rightarrow> bool" where
  \<comment> \<open>\<open>issue.get("ai_fixed_code") and issue.get("ai_fixed_code") != "<!-- Fix -->"\<close>\<close>
  "already_fixed issue =
     (let v = jget issue ''ai_fixed_code'' JNull in truthy v \<and> v \<noteq> JStr ''<!-- Fix -->'')"

text \<open>\<open>"Visual Detection" in snippet\<close>, for a snippet that is truthy.\<close>

fun mentions_visual :: "json \<Rightarrow> py_error + bool" where
  "mentions_visual (JStr s) = Inr (is_substring ''Visual Detection'' s)"
| "mentions_visual (JArr xs) = Inr (List.member xs (JStr ''Visual Detection''))"
| "mentions_visual (JObj kvs) = Inr (List.member (map fst kvs) ''Visual Detection'')"
| "mentions_visual _ = Inl TypeError"

text \<open>
  The loop over the captured elements: the first one whose text contains the search
  text gives its markup and its tag; a missing key raises KeyError.
\<close>

fun find_element :: "string \<Rightarrow> element list \<Rightarrow> py_error + (string \<times> string) option" where
  "find_element search_text [] = Inr None"
| "find_element search_text (el # els) =
     (case el_text el of
        None \<Rightarrow> Inl KeyError
      | Some t \<Rightarrow>
          if is_substring (py_lower search_text) (py_lower t) then
            (case el_html el of
               None \<Rightarrow> Inl KeyError
             | Some h \<Rightarrow>
                 (case el_tag el of
                    None \<Rightarrow> Inl KeyError
                  | Some g \<Rightarrow> Inr (Some (h, g))))
          else find_element search_text els)"

definition smart_lookup :: "element list \<Rightarrow> issue \<Rightarrow> py_error + issue" where
  \<comment> \<open>the reverse lookup for a visual issue without markup\<close>
  "smart_lookup interactive_elements issue =
     (let desc = jget issue ''description'' (JStr []);
          snippet = jget issue ''html_snippet'' (JStr [])
      in case (if truthy snippet then mentions_visual snippet else Inr True) of
           Inl e \<Rightarrow> Inl e
         | Inr False \<Rightarrow> Inr issue
         | Inr True \<Rightarrow>
             (case desc of
                JStr d \<Rightarrow>
                  (let search_text = get_or (first_quoted d) [] in
                   if search_text = [] then Inr issue
                   else (case find_element search_text interactive_elements of
                           Inl e \<Rightarrow> Inl e
                         | Inr None \<Rightarrow> Inr issue
                         | Inr (Some (h, g)) \<Rightarrow>
                             Inr (set_key ''selector''
                                    (JStr (''<'' @ g @ ''> containing '' @ [CHR 0x27] @ search_text @ [CHR 0x27]))
                                    (set_key ''html_snippet'' (JStr h) issue))))
              | _ \<Rightarrow> Inl TypeError))"

datatype fix_prompt =
    General json json
  | Targeted json json json

definition manual_review :: "issue \<Rightarrow> issue" where
  "manual_review issue =
     set_key ''ai_fixed_code'' (JStr ''<!-- Manual Review -->'')
       (set_key ''ai_explanation'' (JStr ''Manual review recommended.'') issue)"

definition guard_fix :: "json \<Rightarrow> json option" where
  \<comment> \<open>\<open>validate_fix(raw_fix)\<close>; \<open>re.sub\<close> raises on a truthy value that is no string\<close>
  "guard_fix raw_fix =
     (if truthy raw_fix then
        (case raw_fix of JStr s \<Rightarrow> Some (JStr (validate_fix s)) | _ \<Rightarrow> None)
      else Some (JStr []))"

definition apply_fix :: "json option \<Rightarrow> issue \<Rightarrow> issue" where
  \<comment> \<open>the \<open>try\<close> block of the fixer with the answer of the oracle\<close>
  "apply_fix answer issue =
     (case answer of
        Some (JObj ai_data) \<Rightarrow>
          (case guard_fix (jget ai_data ''fixed_code'' (JStr ''<!-- Check CSS -->'')) of
             Some fixed \<Rightarrow>
               set_key ''ai_fixed_code'' fixed
                 (set_key ''ai_explanation'' (jget ai_data ''explanation'' (JStr ''AI Explanation'')) issue)
           | None \<Rightarrow> manual_review issue)
      | _ \<Rightarrow> manual_review issue)"

definition fix_issue ::
    "element list \<Rightarrow> (fix_prompt \<Rightarrow> json option) \<Rightarrow> issue \<Rightarrow> py_error + issue" where
  "fix_issue interactive_elements llm issue =
     (if already_fixed issue then Inr issue
      else
        let rule = jget issue ''rule'' (JStr ''unknown'');
            desc = jget issue ''description'' (JStr []);
            category = jget issue ''category'' (JStr [])
        in case (if category = JStr ''visual'' then smart_lookup interactive_elements issue
                 else Inr issue) of
             Inl e \<Rightarrow> Inl e
           | Inr issue1 \<Rightarrow>
               (let snippet = jget issue1 ''html_snippet'' (JStr []);
                    has_code = (truthy snippet \<and> snippet \<noteq> JStr ''Code not available''
                                \<and> snippet \<noteq> JStr ''Visual Detection'');
                    user_prompt = (if has_code then Targeted rule desc snippet
                                   else General rule desc)
                in Inr (apply_fix (llm user_prompt) issue1)))"

text \<open>The loop of the fixer; the oracle is asked once per issue, \<open>k\<close> counts the issues.\<close>

fun fixer_loop ::
    "element list \<Rightarrow> (nat \<Rightarrow> fix_prompt \<Rightarrow> json option) \<Rightarrow> nat \<Rightarrow> issue list
       \<Rightarrow> py_error + issue list" where
  "fixer_loop els llm k [] = Inr []"
| "fixer_loop els llm k (issue # rest) =
     (case fix_issue els (llm k) issue of
        Inl e \<Rightarrow> Inl e
      | Inr fixed \<Rightarrow>
          (case fixer_loop els llm (Suc k) rest of
             Inl e \<Rightarrow> Inl e
           | Inr final_rest \<Rightarrow> Inr (fixed # final_rest)))"

definition all_issues :: "audit_state \<Rightarrow> issue list" where
  "all_issues state =
     get_or (critiqued_issues state) [] @ get_or (vision_issues state) []
     @ get_or (semantic_issues state) [] @ get_or (interaction_issues state) []"

definition fixer_node ::
    "(nat \<Rightarrow> fix_prompt \<Rightarrow> json option) \<Rightarrow> audit_state \<Rightarrow> py_error + audit_state" where
  "fixer_node llm state =
     (let interactive_elements =
            get_or (interactive (get_or (dom_content state) no_evidence)) []
      in case fixer_loop interactive_elements llm 0 (all_issues state) of
           Inl e \<Rightarrow> Inl e
         | Inr report \<Rightarrow> Inr (no_keys\<lparr>final_report := Some report\<rparr>))"

section \<open>Workflow (backend/graph/workflow.py)\<close>

text \<open>
  The fixer writes into the issues it walks through, and these are the very objects that
  the category lists of the state hold: after the fixer has run, each category list that
  is present holds its part of the report.
\<close>

definition write_back :: "audit_state \<Rightarrow> issue list \<Rightarrow> audit_state" where
  "write_back state report =
     (let n1 = length (get_or (critiqued_issues state) []);
          n2 = length (get_or (vision_issues state) []);
          n3 = length (get_or (semantic_issues state) [])
      in state\<lparr>
           critiqued_issues := map_option (\<lambda>old. take n1 report) (critiqued_issues state),
           vision_issues := map_option (\<lambda>old. take n2 (drop n1 report)) (vision_issues state),
           semantic_issues :=
             map_option (\<lambda>old. take n3 (drop (n1 + n2) report)) (semantic_issues state),
           interaction_issues :=
             map_option (\<lambda>old. drop (n1 + n2 + n3) report) (interaction_issues state)\<rparr>)"

text \<open>
  The chain input guard, scanner, critic, semantic, interaction, vision, fixer, run from
  the state that holds only the URL; an exception that leaves a stage ends the run.
\<close>

definition run_audit ::
    "(string \<Rightarrow> string + string) \<Rightarrow> (8 word list \<Rightarrow> 256 word) \<Rightarrow> (string \<Rightarrow> scan_result)
       \<Rightarrow> bool \<Rightarrow> (finding list \<Rightarrow> json option) \<Rightarrow> (json list \<Rightarrow> json list \<Rightarrow> json option)
       \<Rightarrow> (string \<Rightarrow> json option) \<Rightarrow> (nat \<Rightarrow> fix_prompt \<Rightarrow> json option)
       \<Rightarrow> string \<Rightarrow> py_error + audit_state" where
  "run_audit netloc_of sha256 scan_page USE_MODEL_SLM slm llm_semantic llm_vision llm_fix url =
     (let s0 = no_keys\<lparr>st_url := Some url\<rparr>;
          s1 = merge_state s0 (validate_input netloc_of s0)
      in case scanner_node sha256 scan_page s1 of
           Inl e \<Rightarrow> Inl e
         | Inr u2 \<Rightarrow>
             (let s2 = merge_state s1 u2;
                  s3 = merge_state s2 (critic_node USE_MODEL_SLM slm s2);
                  s4 = merge_state s3 (semantic_node llm_semantic s3);
                  s5 = merge_state s4 (interaction_node s4);
                  s6 = merge_state s5 (vision_analyzer_node llm_vision s5)
              in case fixer_node llm_fix s6 of
                   Inl e \<Rightarrow> Inl e
                 | Inr u7 \<Rightarrow>
                     Inr (merge_state (write_back s6 (get_or (final_report u7) [])) u7)))"

definition no_finding :: finding where
  \<comment> \<open>the finding with no key\<close>
  "no_finding = \<lparr>f_id = None, f_impact = None, f_description = None, f_help = None,
     f_selector = None, f_count = None, f_nodes = None, f_nodes_affected = None, f_rule = None,
     f_wcag_sc = None, f_wcag_title = None, f_gigw_checkpoint = None, f_fix_priority = None,
     f_specific_nodes = None, f_india_priority = None\<rparr>"

definition entry :: "string \<Rightarrow> string \<Rightarrow> tab_entry" where
  \<comment> \<open>a focus event as the scanner records it, with an empty text\<close>
  "entry t i = \<lparr>te_tag = Some t, te_text = Some [], te_id = Some i\<rparr>"


definition failed_scan :: scan_result where
  \<comment> \<open>what \<open>scan_page\<close> returns when the browser fails\<close>
  "failed_scan = \<lparr>sr_error = Some ''navigation failed'', sr_violations = Some [],
     sr_screenshot = Some None, sr_html = None, sr_dom_content = Some no_evidence,
     sr_tab_log = Some []\<rparr>"

text \<open>The group key and the count of a finding, and the counter of a rule in a grouping.\<close>

definition rule_key :: "finding \<Rightarrow> string" where
  "rule_key f = get_or (f_rule f) ''unknown''"

definition affected :: "finding \<Rightarrow> int" where
  "affected f = get_or (f_nodes_affected f) 1"

definition total_of :: "grouped list \<Rightarrow> string \<Rightarrow> int" where
  "total_of gs r = sum_list (map total_occurrences (filter (\<lambda>g. g_rule g = r) gs))"

text \<open>
  \<open>could_start lit s\<close>: the text \<open>s\<close> agrees with the literal as far as it goes, so that a
  longer text could match there.  \<open>scan_closed tag pre\<close>: the scan for blocks of \<open>tag\<close>
  leaves nothing open at the end of \<open>pre\<close>, neither an opening tag without its closing tag
  nor the beginning of an opening tag.
\<close>

definition could_start :: "string \<Rightarrow> nat list \<Rightarrow> bool" where
  "could_start lit s =
     (case cp_drop_prefix True (take (length s) lit) s of Some _ \<Rightarrow> True | None \<Rightarrow> False)"

function scan_closed :: "string \<Rightarrow> nat list \<Rightarrow> bool" where
  "scan_closed tag [] = True"
| "scan_closed tag (c # cs) =
     (case match_block tag (c # cs) of
        Some r \<Rightarrow> if length r \<le> length cs then scan_closed tag r else False
      | None \<Rightarrow> if could_start (CHR ''<'' # tag) (c # cs) then False else scan_closed tag cs)"
  by pat_completeness auto
termination
  by (relation "measure (\<lambda>(t, s). length s)") auto

section \<open>Properties of the output guard\<close>

text \<open>
  C6.  The sanitizer is one left-to-right pass per pattern, so text that only becomes a
  match once an inner match has been removed stays in the output: on the input
  \<open>javajavascript:script:\<close> the result still contains \<open>javascript:\<close> (and the marker
  is appended).  The claim that the output never contains \<open>javascript:\<close> fails there.
\<close>

theorem validate_fix_leaves_javascript:
  "validate_fix ''javajavascript:script:'' = ''javascript:'' @ guard_marker
   \<and> occurs match_javascript (validate_fix ''javajavascript:script:'')"
  by code_simp

text \<open>
  What does hold: a text in which none of the four patterns matches anywhere is returned
  as it is, with no marker.
\<close>

lemma sub_all_no_match: "\<not> occurs m s \<Longrightarrow> sub_all m s = s"
  by (induction s) (auto split: option.splits)

lemma validate_fix_clean_unchanged:
  assumes "\<not> occurs match_script_guard s" and "\<not> occurs match_javascript s"
    and "\<not> occurs (match_handler CHR 0x22) s" and "\<not> occurs (match_handler CHR 0x27) s"
  shows "validate_fix s = s"
  using assms by (simp add: validate_fix_def sub_all_no_match)

section \<open>Properties of the fingerprint engine\<close>

lemma hex_digits_lower: "list_all (\<lambda>k. is_lower_hex (''0123456789abcdef'' ! k)) [0..<16]"
  by code_simp

lemma hex_digit_ok: "is_lower_hex (hex_digit n)"
proof -
  have "n mod 16 \<in> set [0..<16]" by simp
  with hex_digits_lower show ?thesis
    unfolding hex_digit_def list_all_iff by blast
qed

lemma hexdigest_ok: "length (hexdigest d) = 64 \<and> list_all is_lower_hex (hexdigest d)"
  by (simp add: hexdigest_def list_all_iff hex_digit_ok)

lemmas cp_eval = cps_def clean_dom_def match_block_def match_comment_def match_data_attr_def
  match_session_id_def cp_space_def cp_alnum_def cp_data_name_def fold_case_def py_strip_def
  Let_def

text \<open>Every pass of the cleaning only removes code points, or puts a space for white space.\<close>

lemma cp_drop_prefix_set: "cp_drop_prefix ci p s = Some r \<Longrightarrow> set r \<subseteq> set s"
  by (induction ci p s rule: cp_drop_prefix.induct) (auto split: if_splits)

lemma cp_after_first_set: "cp_after_first ci lit s = Some r \<Longrightarrow> set r \<subseteq> set s"
proof (induction s)
  case Nil
  then show ?case using cp_drop_prefix_set [of ci lit "[]" r] by simp
next
  case (Cons c cs)
  show ?case
  proof (cases "cp_drop_prefix ci lit (c # cs)")
    case None
    with Cons show ?thesis by auto
  next
    case (Some r')
    with Cons.prems cp_drop_prefix_set [OF Some] show ?thesis by simp
  qed
qed

lemma after_char_set: "after_char q s = Some r \<Longrightarrow> set r \<subseteq> set s"
  by (induction s) (auto split: if_splits)

lemma sub_all_set:
  assumes "\<And>s r. m s = Some r \<Longrightarrow> set r \<subseteq> set s"
  shows "set (sub_all m s) \<subseteq> set s"
proof (induction "length s" arbitrary: s rule: less_induct)
  case less
  show ?case
  proof (cases s)
    case Nil
    then show ?thesis by simp
  next
    case (Cons c cs)
    have t: "set (sub_all m cs) \<subseteq> set cs" using less [of cs] Cons by simp
    show ?thesis
    proof (cases "m (c # cs)")
      case None
      with t Cons show ?thesis by auto
    next
      case (Some r)
      show ?thesis
      proof (cases "length r \<le> length cs")
        case True
        then have "set (sub_all m r) \<subseteq> set r" using less [of r] Cons by simp
        with assms [OF Some] Some True Cons show ?thesis by auto
      next
        case False
        with t Some Cons show ?thesis by auto
      qed
    qed
  qed
qed

lemma match_block_set: "match_block tag s = Some r \<Longrightarrow> set r \<subseteq> set s"
  unfolding match_block_def
  by (auto split: option.splits dest!: cp_drop_prefix_set after_char_set cp_after_first_set)

lemma match_comment_set: "match_comment s = Some r \<Longrightarrow> set r \<subseteq> set s"
  unfolding match_comment_def
  by (auto split: option.splits dest!: cp_drop_prefix_set cp_after_first_set)

lemma match_data_attr_set: "match_data_attr s = Some r \<Longrightarrow> set r \<subseteq> set s"
  unfolding match_data_attr_def
  by (auto split: option.splits if_splits
      dest!: cp_drop_prefix_set after_char_set dest: set_dropWhileD)

lemma match_session_id_set: "match_session_id s = Some r \<Longrightarrow> set r \<subseteq> set s"
  unfolding match_session_id_def
  by (auto split: option.splits if_splits dest!: cp_drop_prefix_set dest: set_dropWhileD)

lemma collapse_ws_set: "set (collapse_ws s) \<subseteq> insert 32 (set s)"
  by (induction s rule: collapse_ws.induct) (auto dest: set_dropWhileD)

lemma py_strip_set: "set (py_strip s) \<subseteq> set s"
  by (auto simp: py_strip_def dest!: set_dropWhileD)

lemma clean_dom_set: "set (clean_dom html) \<subseteq> insert 32 (set html)"
proof -
  have b: "set (sub_all (match_block tag) s) \<subseteq> set s" for tag s
    by (rule sub_all_set) (rule match_block_set)
  have c: "set (sub_all match_comment s) \<subseteq> set s" for s
    by (rule sub_all_set) (rule match_comment_set)
  have d: "set (sub_all match_data_attr s) \<subseteq> set s" for s
    by (rule sub_all_set) (rule match_data_attr_set)
  have e: "set (sub_all match_session_id s) \<subseteq> set s" for s
    by (rule sub_all_set) (rule match_session_id_set)
  define c1 where "c1 = sub_all (match_block ''script'') html"
  define c2 where "c2 = sub_all (match_block ''iframe'') c1"
  define c3 where "c3 = sub_all (match_block ''noscript'') c2"
  define c4 where "c4 = sub_all (match_block ''style'') c3"
  define c5 where "c5 = sub_all match_comment c4"
  define c6 where "c6 = sub_all match_data_attr c5"
  define c7 where "c7 = sub_all match_session_id c6"
  have s1: "set c1 \<subseteq> set html" unfolding c1_def by (rule b)
  have s2: "set c2 \<subseteq> set html" unfolding c2_def by (rule order_trans [OF b s1])
  have s3: "set c3 \<subseteq> set html" unfolding c3_def by (rule order_trans [OF b s2])
  have s4: "set c4 \<subseteq> set html" unfolding c4_def by (rule order_trans [OF b s3])
  have s5: "set c5 \<subseteq> set html" unfolding c5_def by (rule order_trans [OF c s4])
  have s6: "set c6 \<subseteq> set html" unfolding c6_def by (rule order_trans [OF d s5])
  have s7: "set c7 \<subseteq> set html" unfolding c7_def by (rule order_trans [OF e s6])
  have "set (collapse_ws c7) \<subseteq> insert 32 (set c7)" by (rule collapse_ws_set)
  with s7 have s8: "set (collapse_ws c7) \<subseteq> insert 32 (set html)" by auto
  have "clean_dom html = py_strip (collapse_ws c7)"
    by (simp add: clean_dom_def c1_def c2_def c3_def c4_def c5_def c6_def c7_def)
  with order_trans [OF py_strip_set s8] show ?thesis by simp
qed

lemma clean_dom_no_surrogate:
  "\<not> list_ex is_surrogate html \<Longrightarrow> \<not> list_ex is_surrogate (clean_dom html)"
proof -
  assume a: "\<not> list_ex is_surrogate html"
  have "\<not> is_surrogate 32" by (simp add: is_surrogate_def)
  with a clean_dom_set [of html] show ?thesis by (auto simp: list_ex_iff)
qed

text \<open>
  C10 as stated fails on the markup that is one lone surrogate (code point 55296): the
  encoding raises UnicodeEncodeError and there is no hash.
\<close>

theorem compute_dom_hash_lone_surrogate:
  "compute_dom_hash (\<lambda>bytes. 0) [55296] = Inl UnicodeEncodeError"
  by (simp add: compute_dom_hash_def utf8_encode_def is_surrogate_def cp_eval)

text \<open>
  C10, as amended.  For every markup without lone surrogates (the empty one included)
  \<open>compute_dom_hash\<close> returns 64 lower-case hexadecimal digits, so the 16-character
  prefix of the cache key is well defined; and for every markup at all it either returns
  such a hash or raises UnicodeEncodeError.
\<close>

theorem compute_dom_hash_hex64:
  "(\<not> list_ex is_surrogate html \<longrightarrow>
      (\<exists>h. compute_dom_hash sha256 html = Inr h \<and> length h = 64 \<and> list_all is_lower_hex h
           \<and> length (take 16 h) = 16))
   \<and> (compute_dom_hash sha256 html = Inl UnicodeEncodeError
       \<or> (\<exists>h. compute_dom_hash sha256 html = Inr h \<and> length h = 64 \<and> list_all is_lower_hex h
              \<and> length (take 16 h) = 16))"
proof -
  have r: "\<exists>h. compute_dom_hash sha256 html = Inr h \<and> length h = 64 \<and> list_all is_lower_hex h
           \<and> length (take 16 h) = 16"
    if "\<not> list_ex is_surrogate (clean_dom html)"
    using that hexdigest_ok by (simp add: compute_dom_hash_def utf8_encode_def)
  have l: "compute_dom_hash sha256 html = Inl UnicodeEncodeError"
    if "list_ex is_surrogate (clean_dom html)"
    using that by (simp add: compute_dom_hash_def utf8_encode_def)
  from r l clean_dom_no_surrogate [of html] show ?thesis by blast
qed

theorem compute_dom_hash_hex64_witness:
  "\<exists>h. compute_dom_hash (\<lambda>bytes. 0) (cps ''<p>hi</p>'') = Inr h \<and> length h = 64
       \<and> list_all is_lower_hex h \<and> length (take 16 h) = 16"
proof -
  have "\<not> list_ex is_surrogate (cps ''<p>hi</p>'')"
    by (simp add: cps_def is_surrogate_def)
  with compute_dom_hash_hex64 [of "cps ''<p>hi</p>''" "\<lambda>bytes. 0"] show ?thesis by blast
qed

text \<open>
  C4.  The script pattern is matched lazily from the first \<open><script\<close> it sees, also inside
  a style element, and the data-attribute pattern only knows names of letters, digits,
  underscore and hyphen.  So appending a script block to
  \<open><style>/* <script> */</style><p>hi</p>\<close> changes the hashed text (the paragraph is lost
  and the style element is left open), and the attribute \<open>data-a.b="1"\<close> is not stripped.
\<close>

theorem clean_dom_not_invariant:
  "clean_dom (cps ''<style>/* <script> */</style><p>hi</p>'') = cps ''<p>hi</p>''
   \<and> clean_dom (cps ''<style>/* <script> */</style><p>hi</p>'' @ cps ''<script>x</script>'')
       = cps ''<style>/*''
   \<and> clean_dom (cps ''<div>'') = cps ''<div>''
   \<and> clean_dom (cps (''<div'' @ '' data-a.b='' @ [CHR 0x22] @ ''1'' @ [CHR 0x22] @ ''>''))
       = cps (''<div data-a.b='' @ [CHR 0x22] @ ''1'' @ [CHR 0x22] @ ''>'')"
  by (simp add: cp_eval)

text \<open>
  What does hold: where the scan for script blocks leaves nothing open before the point
  of insertion, inserting (or removing) a block that the script pattern matches as a whole
  leaves the hash unchanged.
\<close>

lemma cp_drop_prefix_append:
  "cp_drop_prefix ci p s = Some r \<Longrightarrow> cp_drop_prefix ci p (s @ x) = Some (r @ x)"
  by (induction ci p s rule: cp_drop_prefix.induct) (auto split: if_splits)

lemma cp_drop_prefix_length:
  "cp_drop_prefix ci p s = Some r \<Longrightarrow> length s = length p + length r"
  by (induction ci p s rule: cp_drop_prefix.induct) (auto split: if_splits)

lemma cp_drop_prefix_none_append:
  "cp_drop_prefix ci p s = None \<Longrightarrow> length p \<le> length s \<Longrightarrow> cp_drop_prefix ci p (s @ x) = None"
  by (induction ci p s rule: cp_drop_prefix.induct) (auto split: if_splits)

lemma cp_drop_prefix_mismatch_append:
  "cp_drop_prefix ci (take (length s) p) s = None \<Longrightarrow> cp_drop_prefix ci p (s @ x) = None"
  by (induction ci p s rule: cp_drop_prefix.induct) (auto split: if_splits)

lemma after_char_append:
  "after_char q s = Some r \<Longrightarrow> after_char q (s @ x) = Some (r @ x)"
  by (induction s) (auto split: if_splits)

lemma cp_after_first_length:
  "cp_after_first ci lit s = Some r \<Longrightarrow> length lit \<le> length s"
proof (induction s)
  case Nil
  then show ?case using cp_drop_prefix_length [of ci lit "[]" r] by simp
next
  case (Cons c cs)
  show ?case
  proof (cases "cp_drop_prefix ci lit (c # cs)")
    case None
    with Cons show ?thesis by simp
  next
    case (Some r')
    from cp_drop_prefix_length [OF Some] show ?thesis by simp
  qed
qed

lemma cp_after_first_append:
  "cp_after_first ci lit s = Some r \<Longrightarrow> cp_after_first ci lit (s @ x) = Some (r @ x)"
proof (induction s)
  case Nil
  then have l: "lit = []" "r = []" by (cases lit; simp)+
  then show ?case by (cases x) simp_all
next
  case (Cons c cs)
  show ?case
  proof (cases "cp_drop_prefix ci lit (c # cs)")
    case None
    with Cons.prems have a: "cp_after_first ci lit cs = Some r" by simp
    from cp_after_first_length [OF a] have "length lit \<le> length (c # cs)" by simp
    from cp_drop_prefix_none_append [OF None this] have "cp_drop_prefix ci lit (c # cs @ x) = None" by simp
    with Cons.IH [OF a] show ?thesis by simp
  next
    case (Some r')
    with Cons.prems have "r' = r" by simp
    with cp_drop_prefix_append [OF Some, of x] show ?thesis by simp
  qed
qed

lemma match_block_append:
  "match_block tag s = Some r \<Longrightarrow> match_block tag (s @ x) = Some (r @ x)"
  by (auto simp: match_block_def cp_drop_prefix_append after_char_append cp_after_first_append
      split: option.splits)

lemma match_block_cannot_start:
  "\<not> could_start (CHR ''<'' # tag) s \<Longrightarrow> match_block tag (s @ x) = None"
  by (auto simp: could_start_def match_block_def cp_drop_prefix_mismatch_append split: option.splits)

lemma sub_all_closed_prefix:
  "scan_closed tag pre \<Longrightarrow>
   sub_all (match_block tag) (pre @ x) = sub_all (match_block tag) pre @ sub_all (match_block tag) x"
proof (induction tag pre rule: scan_closed.induct)
  case (1 tag)
  show ?case by simp
next
  case (2 tag c cs)
  show ?case
  proof (cases "match_block tag (c # cs)")
    case None
    with "2.prems" have n: "\<not> could_start (CHR ''<'' # tag) (c # cs)" and s: "scan_closed tag cs"
      by (auto split: if_splits)
    from match_block_cannot_start [OF n, of x] have "match_block tag (c # cs @ x) = None" by simp
    with None "2.IH"(1) [OF None n s] show ?thesis by simp
  next
    case (Some r)
    with "2.prems" have l: "length r \<le> length cs" and s: "scan_closed tag r"
      by (auto split: if_splits)
    from match_block_append [OF Some, of x] have "match_block tag (c # cs @ x) = Some (r @ x)" by simp
    with Some l "2.IH"(2) [OF Some l s] show ?thesis by simp
  qed
qed

lemma sub_all_whole_block:
  assumes "match_block tag b = Some []"
  shows "sub_all (match_block tag) (b @ post) = sub_all (match_block tag) post"
proof (cases b)
  case Nil
  with assms show ?thesis by (simp add: match_block_def)
next
  case (Cons c cs)
  with match_block_append [OF assms, of post] show ?thesis by simp
qed

lemma script_block_insertion:
  assumes "scan_closed ''script'' pre" and "match_block ''script'' block = Some []"
  shows "compute_dom_hash sha256 (pre @ block @ post) = compute_dom_hash sha256 (pre @ post)"
proof -
  have "sub_all (match_block ''script'') (pre @ block @ post)
      = sub_all (match_block ''script'') (pre @ post)"
    using sub_all_closed_prefix [OF assms(1)] sub_all_whole_block [OF assms(2)] by simp
  then show ?thesis by (simp add: compute_dom_hash_def clean_dom_def)
qed

lemma script_block_insertion_example:
  "compute_dom_hash sha256 (cps ''<p>hi</p>'' @ cps ''<SCRIPT src=a.js>var x = 1 < 2;</script>'' @ cps ''<p>there</p>'')
   = compute_dom_hash sha256 (cps ''<p>hi</p>'' @ cps ''<p>there</p>'')"
proof -
  have "scan_closed ''script'' (cps ''<p>hi</p>'')"
    by (simp add: cp_eval could_start_def)
  moreover have "match_block ''script'' (cps ''<SCRIPT src=a.js>var x = 1 < 2;</script>'') = Some []"
    by (simp add: cp_eval)
  ultimately show ?thesis by (rule script_block_insertion)
qed

section \<open>Properties of the input guard\<close>

text \<open>
  C7, as amended.  The guard rejects exactly the states whose URL is missing or empty,
  or does not begin with \<open>http://\<close> or \<open>https://\<close>, or cannot be parsed by the library
  (the exception is caught and reported), or whose host part contains a blocklist entry.
  A rejection sets the error and returns no URL key; an acceptance returns the URL and no
  error.
\<close>

theorem validate_input_rejects_exactly:
  "((st_error (validate_input netloc_of state) \<noteq> None) =
      (get_or (st_url state) [] = [] \<or> \<not> has_scheme (get_or (st_url state) [])
       \<or> (\<exists>e. netloc_of (get_or (st_url state) []) = Inl e)
       \<or> (\<exists>d. netloc_of (get_or (st_url state) []) = Inr d \<and> is_blocked d)))
   \<and> (st_error (validate_input netloc_of state) \<noteq> None
        \<longrightarrow> st_url (validate_input netloc_of state) = None)
   \<and> (st_error (validate_input netloc_of state) = None
        \<longrightarrow> st_url (validate_input netloc_of state) = Some (get_or (st_url state) []))"
  by (auto simp: validate_input_def Let_def no_keys_def split: sum.splits)

lemma malicious_host: "is_blocked ''malicious-site.com''"
  by code_simp

text \<open>
  The host \<open>malicious-site.com\<close> is rejected and the URL key is not returned; the parser
  is the one that answers with this host.
\<close>

theorem validate_input_rejects_exactly_witness:
  "st_error (validate_input (\<lambda>url. Inr ''malicious-site.com'')
              (no_keys\<lparr>st_url := Some ''https://malicious-site.com''\<rparr>)) \<noteq> None
   \<and> st_url (validate_input (\<lambda>url. Inr ''malicious-site.com'')
                (no_keys\<lparr>st_url := Some ''https://malicious-site.com''\<rparr>)) = None"
  using validate_input_rejects_exactly [of "\<lambda>url. Inr ''malicious-site.com''"
      "no_keys\<lparr>st_url := Some ''https://malicious-site.com''\<rparr>"]
    malicious_host
  by (simp add: get_or_def no_keys_def)

text \<open>
  C7 as stated fails on \<open>http://[\<close>, where the library's parser raises ValueError with the
  message \<open>Invalid IPv6 URL\<close>: the URL is not empty, it begins with \<open>http://\<close>, no host
  is parsed at all, and the state is rejected with the message of the \<open>except\<close> branch.
\<close>

theorem validate_input_parse_failure:
  "st_error (validate_input (\<lambda>url. Inl ''Invalid IPv6 URL'') (no_keys\<lparr>st_url := Some ''http://[''\<rparr>))
     = Some ''URL parsing failed: Invalid IPv6 URL''
   \<and> st_url (validate_input (\<lambda>url. Inl ''Invalid IPv6 URL'') (no_keys\<lparr>st_url := Some ''http://[''\<rparr>))
     = None
   \<and> has_scheme ''http://[''"
  by code_simp

section \<open>Properties of the classifier and the grouper\<close>

text \<open>
  C3 as stated fails on the answer \<open>{}\<close>: it is an object without \<open>keep_indices\<close>, the
  default \<open>[]\<close> is taken, and every finding is dropped.
\<close>

theorem model_based_filter_missing_key:
  "model_based_filter True (\<lambda>issues. Some (JObj [])) [no_finding] = []"
  by code_simp

lemma subseq_filter_enumerate:
  "subseq (map snd (filter P (enumerate n xs))) xs"
proof (induction xs arbitrary: n)
  case Nil
  show ?case by simp
next
  case (Cons x xs)
  show ?case using Cons.IH [of "Suc n"] by (cases "P (n, x)") auto
qed

text \<open>
  C3, as amended.  When the call or the parser fails, when the answer is no JSON object,
  or when its \<open>keep_indices\<close> cannot be made a set, Tier 2 returns its input unchanged;
  and in every case its output is a subsequence of its input.
\<close>

theorem model_based_filter_fallback:
  "((slm issues = None \<or> (\<exists>j. slm issues = Some j \<and> \<not> is_obj j)
      \<or> (\<exists>d. slm issues = Some (JObj d) \<and> py_set (jget d ''keep_indices'' (JArr [])) = None))
     \<longrightarrow> model_based_filter use_model slm issues = issues)
   \<and> subseq (model_based_filter use_model slm issues) issues"
proof -
  have a: "slm issues = None \<Longrightarrow> model_based_filter use_model slm issues = issues"
    by (simp add: model_based_filter_def)
  have b: "slm issues = Some j \<Longrightarrow> \<not> is_obj j \<Longrightarrow> model_based_filter use_model slm issues = issues" for j
    by (cases j) (simp_all add: model_based_filter_def)
  have c: "slm issues = Some (JObj d) \<Longrightarrow> py_set (jget d ''keep_indices'' (JArr [])) = None
    \<Longrightarrow> model_based_filter use_model slm issues = issues" for d
    by (simp add: model_based_filter_def)
  have d: "subseq (model_based_filter use_model slm issues) issues"
    unfolding model_based_filter_def
    by (auto split: option.splits json.splits simp: subseq_filter_enumerate)
  from a b c d show ?thesis by blast
qed

theorem model_based_filter_fallback_witness:
  "model_based_filter True (\<lambda>issues. Some (JArr [JInt 0])) [no_finding] = [no_finding]
   \<and> subseq (model_based_filter True (\<lambda>issues. Some (JArr [JInt 0])) [no_finding]) [no_finding]"
  using model_based_filter_fallback [of "\<lambda>issues. Some (JArr [JInt 0])" "[no_finding]" True]
  by simp

text \<open>
  C5.  The cap is tested before the snippets of a finding are added, not after: one finding
  with six nodes gives a group with six snippets (and the counter 1).
\<close>

theorem critique_issues_six_snippets:
  "map (\<lambda>g. (length (code_snippets g), total_occurrences g))
     (critique_issues [no_finding\<lparr>f_rule := Some ''image-alt'',
        f_specific_nodes := Some (replicate 6 \<lparr>n_html = ''<img>'', n_target = ''img''\<rparr>)\<rparr>])
   = [(6, 1)]"
  by code_simp

text \<open>
  The counter of a group is the sum, over the findings of its rule, of the affected-node
  count, taking 1 where it is absent.
\<close>

lemma add_to_group_rule: "g_rule (add_to_group f g) = g_rule g"
  by (simp add: add_to_group_def Let_def)

lemma add_to_group_total:
  "total_occurrences (add_to_group f g) = total_occurrences g + affected f"
  by (simp add: add_to_group_def Let_def affected_def)

lemma critique_step_rules:
  "map g_rule (critique_step gs f)
     = (if rule_key f \<in> set (map g_rule gs) then map g_rule gs else map g_rule gs @ [rule_key f])"
  by (auto simp: critique_step_def Let_def rule_key_def add_to_group_rule comp_def
      intro!: map_cong)

lemma total_of_map_add:
  "distinct (map g_rule gs) \<Longrightarrow> r \<in> set (map g_rule gs) \<Longrightarrow>
   total_of (map (\<lambda>g. if g_rule g = r then add_to_group f g else g) gs) r'
     = total_of gs r' + (if r' = r then affected f else 0)"
proof (induction gs)
  case Nil
  then show ?case by simp
next
  case (Cons g gs)
  show ?case
  proof (cases "g_rule g = r")
    case True
    with Cons.prems have "r \<notin> set (map g_rule gs)" by auto
    then have "map (\<lambda>g. if g_rule g = r then add_to_group f g else g) gs = gs"
      by (induction gs) auto
    with True show ?thesis
      by (simp add: total_of_def add_to_group_rule add_to_group_total)
  next
    case False
    with Cons.prems have "r \<in> set (map g_rule gs)" "distinct (map g_rule gs)" by auto
    from Cons.IH [OF this(2) this(1)] False show ?thesis
      by (auto simp: total_of_def)
  qed
qed

lemma critique_step_total:
  assumes "distinct (map g_rule gs)"
  shows "total_of (critique_step gs f) r = total_of gs r + (if r = rule_key f then affected f else 0)"
proof (cases "rule_key f \<in> set (map g_rule gs)")
  case True
  with total_of_map_add [OF assms True, of f r] show ?thesis
    by (simp add: critique_step_def Let_def rule_key_def)
next
  case False
  let ?new = "\<lparr>g_rule = rule_key f, g_description = get_or (f_description f) [],
                g_wcag_sc = get_or (f_wcag_sc f) ''Unknown'',
                g_fix_priority = get_or (f_fix_priority f) ''LOW'',
                total_occurrences = 0, code_snippets = []\<rparr>"
  have d: "distinct (map g_rule (gs @ [?new]))" using assms False by simp
  have m: "rule_key f \<in> set (map g_rule (gs @ [?new]))" by simp
  have "total_of (gs @ [?new]) r = total_of gs r" by (simp add: total_of_def)
  with total_of_map_add [OF d m, of f r] False show ?thesis
    by (simp add: critique_step_def Let_def rule_key_def)
qed

lemma critique_fold_inv:
  "distinct (map g_rule gs) \<Longrightarrow>
   distinct (map g_rule (foldl critique_step gs fs))
   \<and> (\<forall>r. total_of (foldl critique_step gs fs) r
            = total_of gs r + sum_list (map affected (filter (\<lambda>f. rule_key f = r) fs)))"
proof (induction fs arbitrary: gs)
  case Nil
  then show ?case by simp
next
  case (Cons f fs)
  have d: "distinct (map g_rule (critique_step gs f))"
    using Cons.prems by (simp add: critique_step_rules)
  from Cons.IH [OF d] critique_step_total [OF Cons.prems, of f] show ?case by auto
qed

lemma critique_issues_counter:
  "g \<in> set (critique_issues issues) \<Longrightarrow>
   total_occurrences g = sum_list (map affected (filter (\<lambda>f. rule_key f = g_rule g) issues))"
proof -
  assume g: "g \<in> set (critique_issues issues)"
  have inv: "distinct (map g_rule (critique_issues issues))"
    "total_of (critique_issues issues) (g_rule g)
       = sum_list (map affected (filter (\<lambda>f. rule_key f = g_rule g) issues))"
    using critique_fold_inv [of "[]" issues] by (simp_all add: critique_issues_def total_of_def)
  have "distinct (map g_rule gs) \<Longrightarrow> g \<in> set gs \<Longrightarrow> total_of gs (g_rule g) = total_occurrences g" for gs
  proof (induction gs)
    case Nil
    then show ?case by simp
  next
    case (Cons h gs)
    show ?case
    proof (cases "h = g")
      case True
      with Cons.prems have "g_rule g \<notin> g_rule ` set gs"
        by simp
      then have "\<forall>x \<in> set gs. g_rule x \<noteq> g_rule g"
        by (metis imageI)
      then have "filter (\<lambda>x. g_rule x = g_rule g) gs = []"
        by (simp add: filter_empty_conv)
      with True show ?thesis by (simp add: total_of_def)
    next
      case False
      with Cons.prems have "g \<in> set gs" "g_rule h \<noteq> g_rule g" "distinct (map g_rule gs)" by auto
      with Cons.IH show ?thesis by (simp add: total_of_def)
    qed
  qed
  from this [OF inv(1) g] inv(2) show ?thesis by simp
qed

section \<open>Properties of the interaction analyzer\<close>

lemma first_duplicate_none:
  "distinct (filter (\<lambda>s. s \<noteq> []) (map (\<lambda>i. get_or (te_id i) []) log))
   \<Longrightarrow> set (filter (\<lambda>s. s \<noteq> []) (map (\<lambda>i. get_or (te_id i) []) log)) \<inter> set seen = {}
   \<Longrightarrow> first_duplicate seen log = None"
proof (induction log arbitrary: seen)
  case Nil
  show ?case by simp
next
  case (Cons item rest)
  show ?case
  proof (cases "get_or (te_id item) [] = []")
    case True
    with Cons show ?thesis by simp
  next
    case False
    with Cons.prems have d: "distinct (filter (\<lambda>s. s \<noteq> []) (map (\<lambda>i. get_or (te_id i) []) rest))"
      and n: "get_or (te_id item) [] \<notin> set seen"
      and m: "get_or (te_id item) [] \<notin> set (filter (\<lambda>s. s \<noteq> []) (map (\<lambda>i. get_or (te_id i) []) rest))"
      and e: "set (filter (\<lambda>s. s \<noteq> []) (map (\<lambda>i. get_or (te_id i) []) rest)) \<inter> set seen = {}"
      by auto
    from m e have "set (filter (\<lambda>s. s \<noteq> []) (map (\<lambda>i. get_or (te_id i) []) rest))
        \<inter> set (get_or (te_id item) [] # seen) = {}" by auto
    from Cons.IH [OF d this] False n show ?thesis by simp
  qed
qed

text \<open>
  C8, as amended.  For a focus trace of length 3 in which no non-empty element id occurs
  twice, the body is focused at most once and no entry has one of the non-interactive tags
  (DIV, SPAN, P, H1 to H6), the analyzer produces exactly one issue, the one of the
  limited-keyboard-access rule.
\<close>

theorem interaction_short_trace:
  assumes "length log = 3"
    and "length (filter (\<lambda>item. te_tag item = Some ''BODY'') log) \<le> 1"
    and "\<forall>item \<in> set log. \<forall>t. te_tag item = Some t \<longrightarrow> t \<notin> set non_interactive_tags"
    and "distinct (filter (\<lambda>s. s \<noteq> []) (map (\<lambda>i. get_or (te_id i) []) log))"
  shows "interaction_issues_of log = [limited_access_issue 3]"
proof -
  have ne: "log \<noteq> []" using assms(1) by auto
  have f: "filter (\<lambda>item. case te_tag item of None \<Rightarrow> False
                              | Some t \<Rightarrow> t \<in> set non_interactive_tags) log = []"
    using assms(3) by (auto simp: filter_empty_conv split: option.splits)
  have d: "first_duplicate [] log = None"
    using first_duplicate_none [OF assms(4)] by simp
  show ?thesis
    using ne f d assms(1,2) by (simp add: interaction_issues_of_def Let_def)
qed

theorem interaction_short_trace_witness:
  "interaction_issues_of [entry ''A'' ''home'', entry ''BUTTON'' ''go'', entry ''INPUT'' []]
     = [limited_access_issue 3]
   \<and> map (\<lambda>i. map_of i ''rule'')
        (interaction_issues_of [entry ''A'' ''home'', entry ''BUTTON'' ''go'', entry ''INPUT'' []])
     = [Some (JStr ''limited-keyboard-access'')]"
proof -
  have "interaction_issues_of [entry ''A'' ''home'', entry ''BUTTON'' ''go'', entry ''INPUT'' []]
     = [limited_access_issue 3]"
    by (rule interaction_short_trace)
       (simp_all add: entry_def get_or_def non_interactive_tags_def)
  then show ?thesis by (simp add: limited_access_issue_def)
qed

text \<open>
  C8 as stated fails on a trace of length 3 with distinct ids and no body entry whose
  first entry is a DIV: the non-interactive rule fires as well, and there are two issues.
\<close>

theorem interaction_div_trace:
  "map (\<lambda>i. map_of i ''rule'')
     (interaction_issues_of [entry ''DIV'' ''a'', entry ''A'' ''b'', entry ''BUTTON'' ''c''])
   = [Some (JStr ''non-interactive-tabindex''), Some (JStr ''limited-keyboard-access'')]"
  by code_simp

section \<open>Properties of the fixer\<close>













section \<open>Properties of the whole pipeline\<close>

text \<open>
  C1.  The semantic stage stores the oracle's \<open>fix\<close> in \<open>ai_fixed_code\<close> as it is, and the
  fixer passes an issue that already carries a fix through without the output guard: the
  fix \<open><script>alert(1)</script>\<close> of the semantic oracle reaches the final report,
  although the guard would have removed it.
\<close>

theorem semantic_fix_unsanitized:
  "(case run_audit (\<lambda>url. Inr ''example.com'') (\<lambda>bytes. 0)
           (\<lambda>url. \<lparr>sr_error = None, sr_violations = Some [], sr_screenshot = Some None,
                    sr_html = None,
                    sr_dom_content = Some \<lparr>links = Some [JObj [(''text'', JStr ''Click here'')]],
                                           headings = Some [], interactive = None\<rparr>,
                    sr_tab_log = Some []\<rparr>)
           False (\<lambda>issues. None)
           (\<lambda>lnks hds. Some (JObj [(''issues'',
               JArr [JObj [(''rule'', JStr ''semantic-link''),
                           (''fix'', JStr ''<script>alert(1)</script>'')]])]))
           (\<lambda>shot. None) (\<lambda>k prompt. None) ''https://example.com'' of
      Inl e \<Rightarrow> None
    | Inr st \<Rightarrow> Some (map (\<lambda>i. map_of i ''ai_fixed_code'') (get_or (final_report st) [])))
   = Some [Some (JStr ''<script>alert(1)</script>'')]
   \<and> validate_fix ''<script>alert(1)</script>'' = guard_marker"
  by code_simp

lemma example_page_hash:
  "compute_dom_hash (\<lambda>bytes. 0) (cps ''<p>hi</p>'') = Inr (hexdigest 0)"
  by (simp add: compute_dom_hash_def utf8_encode_def is_surrogate_def cp_eval)

lemma example_page_scan:
  "scanner_node (\<lambda>bytes. 0)
     (\<lambda>url. \<lparr>sr_error = None, sr_violations = Some [], sr_screenshot = Some None,
              sr_html = Some (cps ''<p>hi</p>''), sr_dom_content = Some no_evidence,
              sr_tab_log = Some [entry ''A'' ''home'', entry ''BUTTON'' ''go'', entry ''INPUT'' []]\<rparr>)
     (no_keys\<lparr>st_url := Some ''https://malicious-site.com''\<rparr>)
   = Inr (no_keys\<lparr>raw_violations := Some [], screenshot_b64 := Some None,
            dom_content := Some no_evidence,
            tab_log := Some [entry ''A'' ''home'', entry ''BUTTON'' ''go'', entry ''INPUT'' []],
            dom_hash := Some (hexdigest 0)\<rparr>)"
proof -
  have "cps ''<p>hi</p>'' \<noteq> []" by (simp add: cps_def)
  then show ?thesis
    by (simp add: scanner_node_def example_page_hash no_keys_def get_or_def Let_def)
qed

text \<open>
  C2.  The input guard sets the error for \<open>https://malicious-site.com\<close>, but the state of
  the graph has no \<open>error\<close> key, so the scanner never sees it: the page is scanned, and
  with a focus trace of three entries the run ends with no error, with one interaction
  issue and with a final report of one issue.
\<close>

theorem error_not_short_circuited:
  "st_error (validate_input (\<lambda>url. Inr ''malicious-site.com'')
              (no_keys\<lparr>st_url := Some ''https://malicious-site.com''\<rparr>))
     = Some ''Domain malicious-site.com is in the blocklist.''
   \<and> (case run_audit (\<lambda>url. Inr ''malicious-site.com'') (\<lambda>bytes. 0)
               (\<lambda>url. \<lparr>sr_error = None, sr_violations = Some [], sr_screenshot = Some None,
                        sr_html = Some (cps ''<p>hi</p>''),
                        sr_dom_content = Some no_evidence,
                        sr_tab_log = Some [entry ''A'' ''home'', entry ''BUTTON'' ''go'',
                                           entry ''INPUT'' []]\<rparr>)
               False (\<lambda>issues. None) (\<lambda>lnks hds. None) (\<lambda>shot. None) (\<lambda>k prompt. None)
               ''https://malicious-site.com'' of
          Inl e \<Rightarrow> None
        | Inr st \<Rightarrow>
            Some (st_error st,
                  map (\<lambda>i. map_of i ''rule'') (get_or (interaction_issues st) []),
                  map (\<lambda>i. map_of i ''rule'') (get_or (final_report st) [])))
       = Some (None, [Some (JStr ''limited-keyboard-access'')],
               [Some (JStr ''limited-keyboard-access'')])"
  proof -
  have g: "validate_input (\<lambda>url. Inr ''malicious-site.com'')
             (no_keys\<lparr>st_url := Some ''https://malicious-site.com''\<rparr>)
           = no_keys\<lparr>st_error := Some ''Domain malicious-site.com is in the blocklist.''\<rparr>"
    by code_simp
  have m: "merge_state (no_keys\<lparr>st_url := Some ''https://malicious-site.com''\<rparr>)
             (no_keys\<lparr>st_error := Some ''Domain malicious-site.com is in the blocklist.''\<rparr>)
           = no_keys\<lparr>st_url := Some ''https://malicious-site.com''\<rparr>"
    by (simp add: merge_state_def override_def no_keys_def)
  have i: "map (\<lambda>i. map_of i ''rule'')
             (interaction_issues_of [entry ''A'' ''home'', entry ''BUTTON'' ''go'', entry ''INPUT'' []])
           = [Some (JStr ''limited-keyboard-access'')]"
    by code_simp
  have l: "interaction_issues_of [entry ''A'' ''home'', entry ''BUTTON'' ''go'', entry ''INPUT'' []]
           = [limited_access_issue 3]"
    by code_simp
  have f: "fix_issue [] (\<lambda>prompt. None) (limited_access_issue 3) = Inr (limited_access_issue 3)"
    by (simp add: fix_issue_def already_fixed_def jget_def limited_access_issue_def)
  show ?thesis
    unfolding run_audit_def Let_def g m example_page_scan
    by (simp add: g merge_state_def override_def critic_node_def fast_critique_def
        heuristic_filter_def critique_issues_def semantic_node_def interaction_node_def
        vision_analyzer_node_def fixer_node_def all_issues_def write_back_def l f
        get_or_def no_keys_def no_evidence_def)
       (simp add: limited_access_issue_def)
qed

end
